theory Spec2Isabelle
  imports Complex_Main "HOL-Library.Sublist" "HOL-Library.Word"
begin

section \<open>Instants\<close>

text \<open>
  A Go \<open>time.Time\<close> and a PostgreSQL \<open>timestamptz\<close> are compared as instants
  (\<open>After\<close>, \<open>Before\<close>, \<open>Equal\<close>, \<open><\<close>, \<open>>=\<close>); the location a Go value
  carries (\<open>t.UTC()\<close>) does not take part in any comparison.  An instant is the number of
  nanoseconds since the Unix epoch; a nil pointer or SQL NULL is \<open>None\<close>.
\<close>

type_synonym instant = int

section \<open>The stored row and the upsert of SaveOpportunity\<close>

text \<open>
  The columns of table \<open>opportunities\<close> that carry the lifecycle of a row.  \<open>opp_status\<close>
  and \<open>status_reason\<close> are nullable text (\<open>nilIfEmpty\<close> binds NULL for an empty Go
  string), \<open>is_rolling\<close> is read through \<open>COALESCE(.., false)\<close> by the statement;
  \<open>rolling_evidence\<close>, \<open>is_results_page\<close>, \<open>normalized_status\<close> and
  \<open>status_confidence\<close> are NOT NULL (migrations 014, 015, 016).  A confidence is a float64
  in the program; only its order is used here, so it is a rational.
\<close>

record row =
  opp_status :: "string option"
  status_confidence :: rat
  is_rolling :: "bool option"
  rolling_evidence :: bool
  normalized_status :: string
  status_reason :: "string option"
  next_deadline_at :: "instant option"
  is_results_page :: bool
  deadline_at :: "instant option"
  close_at :: "instant option"

definition strong_status :: "string set" where
  "strong_status = {''closed'', ''archived'', ''funded''}"

text \<open>
  Migration 008, function \<open>update_opportunity_status_on_deadline\<close>, installed as a row
  trigger \<open>BEFORE INSERT OR UPDATE OF deadline_at, opp_status\<close>:
  \<^verbatim>\<open>IF NEW.deadline_at IS NOT NULL AND NEW.deadline_at < NOW()
     AND NEW.opp_status NOT IN ('closed', 'archived', 'funded') THEN
       NEW.opp_status := 'closed';\<close>
  With \<open>NEW.opp_status\<close> NULL the \<open>NOT IN\<close> is unknown and the branch is not taken.
\<close>

definition update_opportunity_status_on_deadline :: "instant \<Rightarrow> row \<Rightarrow> row" where
  "update_opportunity_status_on_deadline now new =
     (case deadline_at new of
        None \<Rightarrow> new
      | Some d \<Rightarrow>
          (case opp_status new of
             None \<Rightarrow> new
           | Some s \<Rightarrow>
               if d < now \<and> s \<notin> strong_status
               then new\<lparr>opp_status := Some ''closed''\<rparr> else new))"

text \<open>
  The \<open>ON CONFLICT (source_domain, source_id) DO UPDATE SET\<close> clause of SaveOpportunity,
  column by column; \<open>old\<close> is \<open>opportunities.*\<close>, \<open>ex\<close> is \<open>EXCLUDED.*\<close>.
\<close>

definition on_conflict_opp_status :: "string option \<Rightarrow> string option \<Rightarrow> string option" where
  "on_conflict_opp_status old ex =
     (if (case old of None \<Rightarrow> False | Some s \<Rightarrow> s \<in> strong_status)
         \<and> (case ex of None \<Rightarrow> ''posted'' | Some s \<Rightarrow> s) \<in> {''posted'', ''''}
      then old
      else (case (case ex of Some s \<Rightarrow> (if s = '''' then None else Some s) | None \<Rightarrow> None) of
              Some s \<Rightarrow> Some s
            | None \<Rightarrow> old))"

definition coalesce_false :: "bool option \<Rightarrow> bool" where
  "coalesce_false b = (case b of None \<Rightarrow> False | Some v \<Rightarrow> v)"

definition on_conflict_update :: "row \<Rightarrow> row \<Rightarrow> row" where
  "on_conflict_update old ex =
     \<lparr> opp_status = on_conflict_opp_status (opp_status old) (opp_status ex),
       status_confidence = max (status_confidence ex) (status_confidence old),
       is_rolling = Some (coalesce_false (is_rolling old) \<or> coalesce_false (is_rolling ex)),
       rolling_evidence = rolling_evidence ex,
       normalized_status = normalized_status ex,
       status_reason = status_reason ex,
       next_deadline_at = next_deadline_at ex,
       is_results_page = is_results_page ex,
       deadline_at = (case deadline_at ex of Some d \<Rightarrow> Some d | None \<Rightarrow> deadline_at old),
       close_at = (case close_at ex of Some d \<Rightarrow> Some d | None \<Rightarrow> close_at old) \<rparr>"

text \<open>
  One execution of the statement at transaction time \<open>now\<close>.  PostgreSQL runs the
  per-row BEFORE INSERT trigger on the proposed row first, and \<open>EXCLUDED\<close> shows the
  proposed row as the trigger left it; on a conflict the SET clause is evaluated and the
  BEFORE UPDATE trigger runs on the result (both \<open>deadline_at\<close> and \<open>opp_status\<close> are
  in the SET list).  \<open>stored\<close> is the row with the same (source_domain, source_id), if any.
\<close>

definition upsert :: "instant \<Rightarrow> row option \<Rightarrow> row \<Rightarrow> row" where
  "upsert now stored proposed =
     (let ex = update_opportunity_status_on_deadline now proposed
      in case stored of
           None \<Rightarrow> ex
         | Some old \<Rightarrow> update_opportunity_status_on_deadline now (on_conflict_update old ex))"

text \<open>A sequence of writes of one key, each with its transaction time, oldest first.\<close>

fun upserts :: "row option \<Rightarrow> (instant \<times> row) list \<Rightarrow> row option" where
  "upserts stored [] = stored"
| "upserts stored ((now, w) # ws) = upserts (Some (upsert now stored w)) ws"

section \<open>Go strings and the library functions the engine calls\<close>

text \<open>
  A Go string is a sequence of bytes, here a \<open>string\<close> (\<open>char list\<close>); a character
  outside ASCII is the bytes of its UTF-8 encoding.  \<open>strings.Contains\<close>,
  \<open>strings.HasPrefix\<close>, \<open>strings.HasSuffix\<close> and \<open>strings.Join\<close> compare and
  concatenate bytes.
\<close>

definition Contains :: "string \<Rightarrow> string \<Rightarrow> bool" where
  "Contains s substr = sublist substr s"


definition HasSuffix :: "string \<Rightarrow> string \<Rightarrow> bool" where
  "HasSuffix s p = suffix p s"

fun Join :: "string list \<Rightarrow> string \<Rightarrow> string" where
  "Join [] sep = []"
| "Join [x] sep = x"
| "Join (x # y # ys) sep = x @ sep @ Join (y # ys) sep"

text \<open>
  The functions whose behaviour is fixed outside the repository are parameters of the
  model, collected in one record: Unicode case mapping, case folding and white space
  (\<open>strings.ToLower\<close>, \<open>strings.EqualFold\<close>, \<open>strings.TrimSpace\<close>,
  \<open>strings.Fields\<close>), the text of a parsed HTML document (goquery's
  \<open>NewDocumentFromReader\<close> followed by \<open>Text\<close>; \<open>None\<close> is the error return),
  \<open>time.Parse\<close> for a layout and a value (\<open>None\<close> is the error return),
  \<open>Format\<close> for a layout and an instant shown in UTC, and \<open>time.LoadLocation\<close>, which
  gives the offset of the named zone east of UTC in seconds (\<open>None\<close> is the error
  return; the zones concerned have one offset for all the instants concerned).  Every
  general theorem below holds for all values of these parameters.
\<close>

record golib =
  ToLower :: "string \<Rightarrow> string"
  EqualFold :: "string \<Rightarrow> string \<Rightarrow> bool"
  TrimSpace :: "string \<Rightarrow> string"
  Fields :: "string \<Rightarrow> string list"
  document_Text :: "string \<Rightarrow> string option"
  time_Parse :: "string \<Rightarrow> string \<Rightarrow> instant option"
  time_Format :: "string \<Rightarrow> instant \<Rightarrow> string"
  LoadLocation :: "string \<Rightarrow> int option"

definition normalizeSpace :: "golib \<Rightarrow> string \<Rightarrow> string" where
  "normalizeSpace L s = Join (Fields L s) '' ''"

definition cleanText :: "golib \<Rightarrow> string \<Rightarrow> string" where
  "cleanText L s = normalizeSpace L s"

definition HTMLToText :: "golib \<Rightarrow> string \<Rightarrow> string" where
  "HTMLToText L html =
     (case document_Text L html of
        None \<Rightarrow> html
      | Some text \<Rightarrow> cleanText L text)"

section \<open>Opportunities\<close>

datatype any = JBool bool | JString string | JOther

record DeadlineEvidence =
  Source :: string
  URL :: string
  Snippet :: string
  ParsedDateISO :: string
  Label :: string
  Confidence :: rat

record Opportunity =
  Title :: string
  Summary :: string
  Description :: string
  ExternalURL :: string
  SourceDomain :: string
  SourceID :: string
  OpportunityNumber :: string
  AgencyName :: string
  AgencyCode :: string
  FunderType :: string
  DeadlineStr :: string
  DeadlineAt :: "instant option"
  OpenDate :: "instant option"
  CloseDateRaw :: string
  SourceStatusRaw :: string
  NormalizedStatus :: string
  StatusReason :: string
  StatusConfidence :: rat
  NextDeadlineAt :: "instant option"
  ExpirationAt :: "instant option"
  CloseAt :: "instant option"
  OpenAt :: "instant option"
  Deadlines :: "string list"
  DeadlineEvidence :: "DeadlineEvidence list"
  IsResultsPage :: bool
  RollingEvidence :: bool
  SourceEvidenceJSON :: "string \<rightharpoonup> any"
  AmountMin :: rat
  AmountMax :: rat
  Currency :: string
  IsRolling :: bool
  DocType :: string
  CfdaList :: "string list"
  OppStatus :: string
  Region :: string
  Country :: string
  Category :: string
  Type :: string
  Eligibility :: "string list"
  Categories :: "string list"
  RawHTML :: string
  Embedding :: "rat list"
  SourceRunID :: string
  CanonicalURL :: string
  RawURL :: string
  ContentType :: string
  DataQualityScore :: "string \<rightharpoonup> any"

text \<open>
  The fields of \<open>StatusDecision\<close> carry a prime: four of them share their name with a
  field of \<open>Opportunity\<close>.
\<close>

record StatusDecision =
  NormalizedStatus' :: string
  StatusReason' :: string
  StatusConfidence' :: rat
  NextDeadlineAt' :: "instant option"
  IsResultsPage' :: bool

section \<open>The status engine\<close>

definition resultsKeywords :: "string list" where
  "resultsKeywords =
     [''resultados finales'', ''ganadores'', ''final results'', ''winners announced'',
      ''awards announced'', ''awarded to'', ''awardees selected'', ''convocatoria cerrada'',
      ''cierre de postulaciones'', ''results published'', ''results available'',
      ''ranking final'']"

text \<open>\<open>for _, k := range ks { if strings.Contains(text, k) { return true } }\<close>\<close>

definition ContainsAny :: "string \<Rightarrow> string list \<Rightarrow> bool" where
  "ContainsAny text ks = list_ex (Contains text) ks"

definition parseDeadlineCandidate :: "golib \<Rightarrow> string \<Rightarrow> instant option" where
  "parseDeadlineCandidate L raw0 =
     (let raw = TrimSpace L raw0 in
      if raw = [] then None
      else (case time_Parse L ''2006-01-02T15:04:05Z07:00'' raw of Some t \<Rightarrow> Some t | None \<Rightarrow>
           (case time_Parse L ''2006-01-02'' raw of Some t \<Rightarrow> Some t | None \<Rightarrow>
           (case time_Parse L ''2006-01-02 15:04:05'' raw of Some t \<Rightarrow> Some t | None \<Rightarrow>
           (case time_Parse L ''2006-01-02T15:04:05'' raw of Some t \<Rightarrow> Some t | None \<Rightarrow>
            None)))))"

definition mapSourceStatusRaw :: "golib \<Rightarrow> string \<Rightarrow> string" where
  "mapSourceStatusRaw L raw0 =
     (let raw = ToLower L (TrimSpace L raw0) in
      if raw = [] then []
      else if ContainsAny raw [''closed'', ''cerrad'', ''finaliz'', ''cancel'', ''funded'',
                               ''expired'', ''no longer accepting''] then ''closed''
      else if ContainsAny raw [''archived'', ''historic'', ''results'', ''winners'',
                               ''awardees'', ''ganadores'', ''resultados''] then ''archived''
      else if ContainsAny raw [''forthcoming'', ''upcoming'', ''coming soon'',
                               ''pr'' @ [CHR 0xC3, CHR 0xB3] @ ''xim'', ''anticipated''] then ''upcoming''
      else if ContainsAny raw [''open'', ''posted'', ''active'', ''abierta'', ''vigente'',
                               ''rolling''] then ''open''
      else [])"

definition detectResultsPage :: "golib \<Rightarrow> Opportunity \<Rightarrow> bool" where
  "detectResultsPage L opp =
     (let text = ToLower L (Join [Title opp, Summary opp, HTMLToText L (Description opp),
                                  SourceStatusRaw opp] '' \<newline> '');
          srcLower = ToLower L (OppStatus opp)
      in if srcLower = ''posted'' \<or> srcLower = ''active'' \<or> srcLower = ''open''
            \<or> srcLower = ''forecasted'' then False
         else if ContainsAny text resultsKeywords then True
         else if Contains text ''proinnovate''
                 \<and> (Contains text ''resultados finales'' \<or> Contains text ''ganadores'') then True
         else False)"

definition rollingHints :: "string list" where
  "rollingHints =
     [''rolling'', ''rolling basis'', ''open continuously'', ''ongoing call'',
      ''open until filled'', ''no deadline'', ''ventanilla abierta'',
      ''convocatoria permanente'', ''sin fecha l'' @ [CHR 0xC3, CHR 0xAD] @ ''mite'',
      ''abierta permanentemente'']"

definition detectRollingEvidence :: "golib \<Rightarrow> Opportunity \<Rightarrow> bool" where
  "detectRollingEvidence L opp =
     (if RollingEvidence opp then True
      else let joined = ToLower L (Join [SourceStatusRaw opp, OppStatus opp, Title opp,
                                         Summary opp, HTMLToText L (Description opp)]
                                        '' \<newline> '')
           in if ContainsAny joined rollingHints then True
              else (case SourceEvidenceJSON opp ''rolling_evidence'' of
                      Some (JBool evidenceRolling) \<Rightarrow> evidenceRolling
                    | _ \<Rightarrow> False))"

text \<open>The first loop of \<open>pickNextDeadline\<close>: the entries of \<open>deadlines[]\<close> that parse.\<close>

fun deadline_candidates :: "golib \<Rightarrow> string list \<Rightarrow> instant list" where
  "deadline_candidates L [] = []"
| "deadline_candidates L (raw # raws) =
     (case parseDeadlineCandidate L raw of
        Some t \<Rightarrow> t # deadline_candidates L raws
      | None \<Rightarrow> deadline_candidates L raws)"

definition isStartLike :: "golib \<Rightarrow> DeadlineEvidence \<Rightarrow> bool" where
  "isStartLike L ev =
     (let label = ToLower L (Label ev @ '' '' @ Snippet ev)
      in Contains label ''inicio'' \<or> Contains label ''apertura'' \<or> Contains label ''start''
         \<or> Contains label ''opening'')"

definition isCloseLike :: "golib \<Rightarrow> DeadlineEvidence \<Rightarrow> bool" where
  "isCloseLike L ev =
     (let label = ToLower L (Label ev @ '' '' @ Snippet ev)
      in Contains label ''cierre'' \<or> Contains label ''deadline'' \<or> Contains label ''closes''
         \<or> Contains label ''submission''
         \<or> (Contains label ''postul'' \<and> \<not> isStartLike L ev))"

text \<open>
  The second loop: every evidence entry that parses is appended to \<open>candidates\<close>, and
  \<open>labeledCloseBest\<close> keeps the earliest close-like, not start-like entry after \<open>now\<close>.
  The state is the pair (candidates, labeledCloseBest).
\<close>

fun evidence_loop ::
  "golib \<Rightarrow> instant \<Rightarrow> DeadlineEvidence list \<Rightarrow> instant list \<times> instant option
     \<Rightarrow> instant list \<times> instant option" where
  "evidence_loop L now [] st = st"
| "evidence_loop L now (ev # evs) (candidates, labeledCloseBest) =
     (case parseDeadlineCandidate L (ParsedDateISO ev) of
        None \<Rightarrow> evidence_loop L now evs (candidates, labeledCloseBest)
      | Some t \<Rightarrow>
          evidence_loop L now evs
            (candidates @ [t],
             if isCloseLike L ev \<and> \<not> isStartLike L ev \<and> now < t
             then (case labeledCloseBest of
                     None \<Rightarrow> Some t
                   | Some b \<Rightarrow> if t < b then Some t else Some b)
             else labeledCloseBest))"

text \<open>The third loop: the earliest candidate strictly after \<open>now\<close>.\<close>

fun best_loop :: "instant \<Rightarrow> instant list \<Rightarrow> instant option \<Rightarrow> instant option" where
  "best_loop now [] best = best"
| "best_loop now (candidate # cs) best =
     (if \<not> now < candidate then best_loop now cs best
      else (case best of
              None \<Rightarrow> best_loop now cs (Some candidate)
            | Some b \<Rightarrow> if candidate < b then best_loop now cs (Some candidate)
                        else best_loop now cs best))"

definition opt_list :: "'a option \<Rightarrow> 'a list" where
  "opt_list x = (case x of None \<Rightarrow> [] | Some v \<Rightarrow> [v])"

definition pickNextDeadline :: "golib \<Rightarrow> Opportunity \<Rightarrow> instant \<Rightarrow> instant option" where
  "pickNextDeadline L opp now =
     (case evidence_loop L now (DeadlineEvidence opp) (deadline_candidates L (Deadlines opp), None) of
        (candidates, Some labeledCloseBest) \<Rightarrow> Some labeledCloseBest
      | (candidates, None) \<Rightarrow>
          (case best_loop now (candidates @ opt_list (NextDeadlineAt opp) @ opt_list (DeadlineAt opp)) None of
             Some best \<Rightarrow> Some best
           | None \<Rightarrow> NextDeadlineAt opp))"

definition hasAnyDeadlineEvidence :: "Opportunity \<Rightarrow> bool" where
  "hasAnyDeadlineEvidence opp =
     (if DeadlineEvidence opp \<noteq> [] \<or> Deadlines opp \<noteq> [] then True
      else DeadlineAt opp \<noteq> None \<or> NextDeadlineAt opp \<noteq> None)"

text \<open>\<open>p != nil && p.After(now)\<close>\<close>

definition is_after :: "instant option \<Rightarrow> instant \<Rightarrow> bool" where
  "is_after p now = (case p of None \<Rightarrow> False | Some t \<Rightarrow> now < t)"

text \<open>\<open>p != nil && !p.After(now)\<close>\<close>

definition not_after :: "instant option \<Rightarrow> instant \<Rightarrow> bool" where
  "not_after p now = (case p of None \<Rightarrow> False | Some t \<Rightarrow> \<not> now < t)"

definition hasFutureDeadlineEvidence :: "golib \<Rightarrow> Opportunity \<Rightarrow> instant \<Rightarrow> bool" where
  "hasFutureDeadlineEvidence L opp now =
     (if is_after (pickNextDeadline L opp now) now then True
      else if is_after (CloseAt opp) now then True
      else False)"

definition decision :: "string \<Rightarrow> string \<Rightarrow> rat \<Rightarrow> instant option \<Rightarrow> bool \<Rightarrow> StatusDecision" where
  "decision st reason conf nd res =
     \<lparr> NormalizedStatus' = st, StatusReason' = reason, StatusConfidence' = conf,
       NextDeadlineAt' = nd, IsResultsPage' = res \<rparr>"

definition ComputeStatusDecision :: "golib \<Rightarrow> Opportunity \<Rightarrow> instant \<Rightarrow> StatusDecision" where
  "ComputeStatusDecision L opp now =
     (let nextDeadline = pickNextDeadline L opp now;
          isResults = detectResultsPage L opp;
          hasRollingEvidence = detectRollingEvidence L opp;
          effectiveRolling = hasRollingEvidence
      in
      if isResults \<or> IsResultsPage opp
      then decision ''closed'' ''results_page'' (99/100) nextDeadline True
      else
      let mappedSource =
            (if mapSourceStatusRaw L (SourceStatusRaw opp) = []
             then mapSourceStatusRaw L (OppStatus opp)
             else mapSourceStatusRaw L (SourceStatusRaw opp))
      in
      if mappedSource = ''archived''
      then decision ''archived'' ''source_archived'' (95/100) nextDeadline False
      else if mappedSource = ''closed''
      then (if effectiveRolling \<or> is_after nextDeadline now \<or> is_after (CloseAt opp) now
            then decision ''needs_review'' ''inconsistent_dates'' (35/100) nextDeadline False
            else decision ''closed'' ''source_closed'' (92/100) nextDeadline False)
      else if is_after (OpenAt opp) now
      then decision ''upcoming'' ''open_date_in_future'' (9/10) nextDeadline False
      else if IsRolling opp \<and> \<not> hasRollingEvidence
      then decision ''needs_review'' ''rolling_without_evidence'' (2/10) nextDeadline False
      else if effectiveRolling
      then decision ''open'' ''rolling_open'' (96/100) nextDeadline False
      else if is_after nextDeadline now
      then decision ''open'' ''future_deadline'' (93/100) nextDeadline False
      else if is_after (CloseAt opp) now
      then decision ''open'' ''future_close_date'' (9/10) nextDeadline False
      else if not_after (CloseAt opp) now
      then decision ''closed'' ''close_date_passed'' (94/100) nextDeadline False
      else if not_after (ExpirationAt opp) now
      then decision ''closed'' ''expiration_passed'' (9/10) nextDeadline False
      else if not_after (DeadlineAt opp) now
      then decision ''closed'' ''deadline_passed'' (95/100) nextDeadline False
      else if hasAnyDeadlineEvidence opp \<and> \<not> hasFutureDeadlineEvidence L opp now
      then decision ''closed'' ''deadline_passed'' (95/100) nextDeadline False
      else if mappedSource = ''upcoming''
      then decision ''upcoming'' ''source_upcoming'' (75/100) nextDeadline False
      else if mappedSource = ''open''
      then decision ''needs_review'' ''source_open_without_time_evidence'' (3/10) nextDeadline False
      else if nextDeadline = None \<and> \<not> effectiveRolling \<and> \<not> is_after (CloseAt opp) now
      then decision ''needs_review'' ''missing_deadline'' (25/100) None False
      else decision ''needs_review'' ''inconsistent_dates'' (4/10) nextDeadline False)"

text \<open>
  \<open>UpdateStatus\<close>, the last step of \<open>FromRaw\<close>; \<open>now\<close> is the value of
  \<open>time.Now().UTC()\<close> it reads.
\<close>

definition UpdateStatus :: "golib \<Rightarrow> instant \<Rightarrow> Opportunity \<Rightarrow> Opportunity" where
  "UpdateStatus L now opp0 =
     (let d = ComputeStatusDecision L opp0 now;
          opp = opp0\<lparr> NormalizedStatus := NormalizedStatus' d,
                      StatusReason := StatusReason' d,
                      StatusConfidence := StatusConfidence' d,
                      NextDeadlineAt := NextDeadlineAt' d,
                      IsResultsPage := IsResultsPage' d \<rparr>
      in if NormalizedStatus' d = ''closed'' \<or> NormalizedStatus' d = ''archived''
         then opp\<lparr> OppStatus := NormalizedStatus' d \<rparr>
         else if OppStatus opp = [] \<or> OppStatus opp = ''unknown''
         then opp\<lparr> OppStatus := ''posted'' \<rparr>
         else opp)"

section \<open>Civil dates\<close>

text \<open>
  \<open>time.Date(year, month, day, hour, min, sec, nsec, loc)\<close> for field values in their
  normal ranges, with the location given by its offset east of UTC in seconds.  Day
  numbers count from 1970-01-01 in the proleptic Gregorian calendar.
\<close>

definition days_from_civil :: "int \<Rightarrow> int \<Rightarrow> int \<Rightarrow> int" where
  "days_from_civil y m d =
     (let y' = (if m \<le> 2 then y - 1 else y);
          era = y' div 400;
          yoe = y' - era * 400;
          doy = (153 * (if m > 2 then m - 3 else m + 9) + 2) div 5 + d - 1;
          doe = yoe * 365 + yoe div 4 - yoe div 100 + doy
      in era * 146097 + doe - 719468)"

definition civil_from_days :: "int \<Rightarrow> int \<times> int \<times> int" where
  "civil_from_days z0 =
     (let z = z0 + 719468;
          era = z div 146097;
          doe = z - era * 146097;
          yoe = (doe - doe div 1460 + doe div 36524 - doe div 146096) div 365;
          doy = doe - (365 * yoe + yoe div 4 - yoe div 100);
          mp = (5 * doy + 2) div 153;
          d = doy - (153 * mp + 2) div 5 + 1;
          m = (if mp < 10 then mp + 3 else mp - 9);
          y = yoe + era * 400
      in (if m \<le> 2 then y + 1 else y, m, d))"

definition Date :: "int \<Rightarrow> int \<Rightarrow> int \<Rightarrow> int \<Rightarrow> int \<Rightarrow> int \<Rightarrow> int \<Rightarrow> int \<Rightarrow> instant" where
  "Date year month day hour minute sec nsec offset =
     ((days_from_civil year month day * 86400 + hour * 3600 + minute * 60 + sec - offset)
        * 1000000000 + nsec)"


section \<open>An ASCII instance of the library parameters\<close>

text \<open>
  For evaluating the engine on concrete records: the library functions on ASCII text
  without markup.  \<open>strings.ToLower\<close> maps \<open>A\<close>..\<open>Z\<close> to \<open>a\<close>..\<open>z\<close>; white space is
  tab, line feed, vertical tab, form feed, carriage return and space; the text of a
  document without tags or character references is the document itself; \<open>time.Parse\<close>
  is given for the four layouts of \<open>parseDeadlineCandidate\<close> and \<open>Format\<close> for
  \<open>time.RFC3339\<close>.
\<close>

definition lower_byte :: "char \<Rightarrow> char" where
  "lower_byte c =
     (let n = (of_char c :: nat) in if 65 \<le> n \<and> n \<le> 90 then char_of (n + 32) else c)"

definition is_space_byte :: "char \<Rightarrow> bool" where
  "is_space_byte c = (let n = (of_char c :: nat) in (9 \<le> n \<and> n \<le> 13) \<or> n = 32)"

definition ascii_TrimSpace :: "string \<Rightarrow> string" where
  "ascii_TrimSpace s = rev (dropWhile is_space_byte (rev (dropWhile is_space_byte s)))"

fun fields_acc :: "string \<Rightarrow> string \<Rightarrow> string list" where
  "fields_acc cur [] = (if cur = [] then [] else [cur])"
| "fields_acc cur (c # cs) =
     (if is_space_byte c
      then (if cur = [] then fields_acc [] cs else cur # fields_acc [] cs)
      else fields_acc (cur @ [c]) cs)"

definition digit_val :: "char \<Rightarrow> int option" where
  "digit_val c =
     (let n = (of_char c :: nat) in if 48 \<le> n \<and> n \<le> 57 then Some (int n - 48) else None)"

text \<open>Exactly \<open>n\<close> decimal digits at the head of the value.\<close>

fun take_num :: "nat \<Rightarrow> int \<Rightarrow> string \<Rightarrow> (int \<times> string) option" where
  "take_num 0 acc s = Some (acc, s)"
| "take_num (Suc n) acc [] = None"
| "take_num (Suc n) acc (c # cs) =
     (case digit_val c of None \<Rightarrow> None | Some v \<Rightarrow> take_num n (acc * 10 + v) cs)"

definition take_lit :: "char \<Rightarrow> string \<Rightarrow> string option" where
  "take_lit c s = (case s of [] \<Rightarrow> None | x # xs \<Rightarrow> if x = c then Some xs else None)"

text \<open>The hour of layout element \<open>15\<close>: one or two digits.\<close>

definition take_hour :: "string \<Rightarrow> (int \<times> string) option" where
  "take_hour s =
     (case s of
        a # b # rest \<Rightarrow>
          (if digit_val b \<noteq> None then take_num 2 0 s else take_num 1 0 s)
      | _ \<Rightarrow> take_num 1 0 s)"

definition is_leap :: "int \<Rightarrow> bool" where
  "is_leap y = (y mod 4 = 0 \<and> (y mod 100 \<noteq> 0 \<or> y mod 400 = 0))"

definition daysIn :: "int \<Rightarrow> int \<Rightarrow> int" where
  "daysIn m y =
     (if m = 2 then (if is_leap y then 29 else 28)
      else if m = 4 \<or> m = 6 \<or> m = 9 \<or> m = 11 then 30 else 31)"

text \<open>\<open>2006-01-02\<close>: year, month, day and the rest of the value.\<close>

definition take_date :: "string \<Rightarrow> (int \<times> int \<times> int \<times> string) option" where
  "take_date s =
     (case take_num 4 0 s of None \<Rightarrow> None | Some (y, s1) \<Rightarrow>
      case take_lit CHR ''-'' s1 of None \<Rightarrow> None | Some s2 \<Rightarrow>
      case take_num 2 0 s2 of None \<Rightarrow> None | Some (m, s3) \<Rightarrow>
      case take_lit CHR ''-'' s3 of None \<Rightarrow> None | Some s4 \<Rightarrow>
      case take_num 2 0 s4 of None \<Rightarrow> None | Some (d, s5) \<Rightarrow>
      if m < 1 \<or> 12 < m \<or> d < 1 \<or> daysIn m y < d then None else Some (y, m, d, s5))"

text \<open>
  A fraction of a second after element \<open>05\<close> that the layout does not name: a period or
  comma and digits, of which nine count.
\<close>

fun frac_digits :: "nat \<Rightarrow> int \<Rightarrow> string \<Rightarrow> int \<times> string" where
  "frac_digits n acc [] = (acc * 10 ^ n, [])"
| "frac_digits n acc (c # cs) =
     (case digit_val c of
        None \<Rightarrow> (acc * 10 ^ n, c # cs)
      | Some v \<Rightarrow> (case n of 0 \<Rightarrow> frac_digits 0 acc cs
                   | Suc k \<Rightarrow> frac_digits k (acc * 10 + v) cs))"

definition take_fraction :: "string \<Rightarrow> int \<times> string" where
  "take_fraction s =
     (case s of
        p # c # cs \<Rightarrow>
          (if (p = CHR ''.'' \<or> p = CHR '','') \<and> digit_val c \<noteq> None
           then frac_digits 9 0 (c # cs) else (0, s))
      | _ \<Rightarrow> (0, s))"

text \<open>\<open>15:04:05\<close>: seconds of the day, nanoseconds and the rest of the value.\<close>

definition take_clock :: "string \<Rightarrow> (int \<times> int \<times> string) option" where
  "take_clock s =
     (case take_hour s of None \<Rightarrow> None | Some (h, s1) \<Rightarrow>
      case take_lit CHR '':'' s1 of None \<Rightarrow> None | Some s2 \<Rightarrow>
      case take_num 2 0 s2 of None \<Rightarrow> None | Some (mi, s3) \<Rightarrow>
      case take_lit CHR '':'' s3 of None \<Rightarrow> None | Some s4 \<Rightarrow>
      case take_num 2 0 s4 of None \<Rightarrow> None | Some (sec, s5) \<Rightarrow>
      if 24 \<le> h \<or> 60 \<le> mi \<or> 60 \<le> sec then None
      else (case take_fraction s5 of (ns, s6) \<Rightarrow> Some (h * 3600 + mi * 60 + sec, ns, s6)))"

text \<open>\<open>Z07:00\<close>: the offset east of UTC in seconds; nothing may follow.\<close>

definition take_zone :: "string \<Rightarrow> int option" where
  "take_zone s =
     (if s = ''Z'' then Some 0
      else case s of
        sg # rest \<Rightarrow>
          (if sg \<noteq> CHR ''+'' \<and> sg \<noteq> CHR ''-'' then None
           else case take_num 2 0 rest of None \<Rightarrow> None | Some (hh, s1) \<Rightarrow>
                case take_lit CHR '':'' s1 of None \<Rightarrow> None | Some s2 \<Rightarrow>
                case take_num 2 0 s2 of None \<Rightarrow> None | Some (mm, s3) \<Rightarrow>
                if s3 \<noteq> [] \<or> 24 < hh \<or> 60 < mm then None
                else Some ((if sg = CHR ''-'' then - 1 else 1) * (hh * 3600 + mm * 60)))
      | [] \<Rightarrow> None)"

definition instant_of :: "int \<Rightarrow> int \<Rightarrow> int \<Rightarrow> int \<Rightarrow> int \<Rightarrow> int \<Rightarrow> instant" where
  "instant_of y m d secs ns offset = Date y m d 0 0 secs ns offset"

fun skip_spaces :: "string \<Rightarrow> string" where
  "skip_spaces [] = []"
| "skip_spaces (c # cs) = (if c = CHR '' '' then skip_spaces cs else c # cs)"

definition ascii_time_Parse :: "string \<Rightarrow> string \<Rightarrow> instant option" where
  "ascii_time_Parse layout v =
     (case take_date v of None \<Rightarrow> None | Some (y, m, d, s1) \<Rightarrow>
      if layout = ''2006-01-02''
      then (if s1 = [] then Some (instant_of y m d 0 0 0) else None)
      else if layout = ''2006-01-02T15:04:05Z07:00''
      then (case take_lit CHR ''T'' s1 of None \<Rightarrow> None | Some s2 \<Rightarrow>
            case take_clock s2 of None \<Rightarrow> None | Some (secs, ns, s3) \<Rightarrow>
            case take_zone s3 of None \<Rightarrow> None | Some off \<Rightarrow>
            Some (instant_of y m d secs ns off))
      else if layout = ''2006-01-02T15:04:05''
      then (case take_lit CHR ''T'' s1 of None \<Rightarrow> None | Some s2 \<Rightarrow>
            case take_clock s2 of None \<Rightarrow> None | Some (secs, ns, s3) \<Rightarrow>
            if s3 = [] then Some (instant_of y m d secs ns 0) else None)
      else if layout = ''2006-01-02 15:04:05''
      then (case take_lit CHR '' '' s1 of None \<Rightarrow> None | Some s2 \<Rightarrow>
            case take_clock (skip_spaces s2) of None \<Rightarrow> None | Some (secs, ns, s3) \<Rightarrow>
            if s3 = [] then Some (instant_of y m d secs ns 0) else None)
      else None)"

text \<open>Two and four decimal digits, zero padded.\<close>

definition digits2 :: "int \<Rightarrow> string" where
  "digits2 n = [char_of (48 + n div 10 mod 10), char_of (48 + n mod 10)]"

definition digits4 :: "int \<Rightarrow> string" where
  "digits4 n = digits2 (n div 100) @ digits2 (n mod 100)"

text \<open>
  \<open>t.UTC().Format(time.RFC3339)\<close> for years 0 to 9999: the layout has no fraction, so
  the nanoseconds are dropped.
\<close>

definition ascii_time_Format :: "string \<Rightarrow> instant \<Rightarrow> string" where
  "ascii_time_Format layout t =
     (let secs = t div 1000000000;
          sod = secs mod 86400
      in case civil_from_days (secs div 86400) of
           (y, m, d) \<Rightarrow>
             digits4 y @ ''-'' @ digits2 m @ ''-'' @ digits2 d @ ''T''
             @ digits2 (sod div 3600) @ '':'' @ digits2 (sod mod 3600 div 60) @ '':''
             @ digits2 (sod mod 60) @ ''Z'')"

text \<open>
  America/Lima has been five hours behind UTC, without daylight saving time, since 1994.
\<close>

definition ascii_LoadLocation :: "string \<Rightarrow> int option" where
  "ascii_LoadLocation name =
     (if name = ''America/Lima'' then Some (- 18000)
      else if name = ''UTC'' then Some 0 else None)"

definition go_ascii :: golib where
  "go_ascii =
     \<lparr> ToLower = map lower_byte,
       EqualFold = (\<lambda>s t. map lower_byte s = map lower_byte t),
       TrimSpace = ascii_TrimSpace,
       Fields = fields_acc [],
       document_Text = Some,
       time_Parse = ascii_time_Parse,
       time_Format = ascii_time_Format,
       LoadLocation = ascii_LoadLocation \<rparr>"

text \<open>The zero value \<open>Opportunity{}\<close> and \<open>DeadlineEvidence{}\<close>.\<close>

definition zero_Opportunity :: Opportunity where
  "zero_Opportunity =
     \<lparr> Title = [], Summary = [], Description = [], ExternalURL = [], SourceDomain = [],
       SourceID = [], OpportunityNumber = [], AgencyName = [], AgencyCode = [],
       FunderType = [], DeadlineStr = [], DeadlineAt = None, OpenDate = None,
       CloseDateRaw = [], SourceStatusRaw = [], NormalizedStatus = [], StatusReason = [],
       StatusConfidence = 0, NextDeadlineAt = None, ExpirationAt = None, CloseAt = None,
       OpenAt = None, Deadlines = [], DeadlineEvidence = [], IsResultsPage = False,
       RollingEvidence = False, SourceEvidenceJSON = Map.empty, AmountMin = 0,
       AmountMax = 0, Currency = [], IsRolling = False, DocType = [], CfdaList = [],
       OppStatus = [], Region = [], Country = [], Category = [], Type = [],
       Eligibility = [], Categories = [], RawHTML = [], Embedding = [], SourceRunID = [],
       CanonicalURL = [], RawURL = [], ContentType = [], DataQualityScore = Map.empty \<rparr>"

definition zero_DeadlineEvidence :: DeadlineEvidence where
  "zero_DeadlineEvidence =
     \<lparr> Source = [], URL = [], Snippet = [], ParsedDateISO = [], Label = [], Confidence = 0 \<rparr>"

section \<open>The write of SaveOpportunity\<close>

definition isAPIFirstSource :: "golib \<Rightarrow> string \<Rightarrow> bool" where
  "isAPIFirstSource L domain =
     ContainsAny (ToLower L (TrimSpace L domain))
       [''grants.gov'', ''api.grants.gov'', ''ec.europa.eu'', ''europa.eu'', ''nsf.gov'',
        ''nih.gov'']"

text \<open>
  SaveOpportunity from the line \<open>opp.RollingEvidence = detectRollingEvidence(opp)\<close> to
  the line before the statement is built.  The argument is the record as the earlier
  steps (normalisation, sanitising, the optional LLM extraction and evidence enrichment)
  left it; \<open>now\<close> is \<open>time.Now().UTC()\<close>.
\<close>

definition stamp_status :: "golib \<Rightarrow> instant \<Rightarrow> Opportunity \<Rightarrow> Opportunity" where
  "stamp_status L now opp0 =
     (let opp1 = opp0\<lparr> RollingEvidence := detectRollingEvidence L opp0 \<rparr>;
          statusDecision = ComputeStatusDecision L opp1 now;
          opp2 = opp1\<lparr> NormalizedStatus := NormalizedStatus' statusDecision,
                       StatusReason := StatusReason' statusDecision,
                       StatusConfidence := StatusConfidence' statusDecision,
                       NextDeadlineAt := NextDeadlineAt' statusDecision,
                       IsResultsPage := IsResultsPage' statusDecision \<rparr>;
          opp3 = (if SourceStatusRaw opp2 = []
                  then opp2\<lparr> SourceStatusRaw := OppStatus opp2 \<rparr> else opp2);
          opp4 = (if OpenAt opp3 = None \<and> OpenDate opp3 \<noteq> None
                  then opp3\<lparr> OpenAt := OpenDate opp3 \<rparr> else opp3);
          opp5 = (if isAPIFirstSource L (SourceDomain opp4)
                     \<and> (OpenAt opp4 \<noteq> None \<or> CloseAt opp4 \<noteq> None
                          \<or> ExpirationAt opp4 \<noteq> None \<or> Deadlines opp4 \<noteq> [])
                  then opp4\<lparr> SourceEvidenceJSON :=
                                (SourceEvidenceJSON opp4)(''authority'' \<mapsto> JString ''api''),
                              StatusConfidence :=
                                (if StatusConfidence opp4 < 95/100 then 95/100
                                 else StatusConfidence opp4) \<rparr>
                  else opp4)
      in if \<not> RollingEvidence opp5 then opp5\<lparr> IsRolling := False \<rparr> else opp5)"

definition nilIfEmpty :: "string \<Rightarrow> string option" where
  "nilIfEmpty s = (if s = [] then None else Some s)"

text \<open>The values bound to the statement, for the columns of \<open>row\<close>.\<close>

definition bound_row :: "Opportunity \<Rightarrow> row" where
  "bound_row opp =
     \<lparr> opp_status = nilIfEmpty (OppStatus opp),
       status_confidence = StatusConfidence opp,
       is_rolling = Some (IsRolling opp),
       rolling_evidence = RollingEvidence opp,
       normalized_status = NormalizedStatus opp,
       status_reason = nilIfEmpty (StatusReason opp),
       next_deadline_at = NextDeadlineAt opp,
       is_results_page = IsResultsPage opp,
       deadline_at = DeadlineAt opp,
       close_at = CloseAt opp \<rparr>"

definition save_write :: "golib \<Rightarrow> instant \<Rightarrow> row option \<Rightarrow> Opportunity \<Rightarrow> row" where
  "save_write L now stored opp = upsert now stored (bound_row (stamp_status L now opp))"

text \<open>Two writes of one key: a rolling call with evidence, then the same call without.\<close>

definition rolling_first :: Opportunity where
  "rolling_first =
     zero_Opportunity\<lparr> SourceID := ''call-1'', SourceDomain := ''example.org'',
                        Title := ''Research call'', IsRolling := True,
                        RollingEvidence := True \<rparr>"

definition rolling_second :: Opportunity where
  "rolling_second =
     zero_Opportunity\<lparr> SourceID := ''call-1'', SourceDomain := ''example.org'',
                        Title := ''Research call'' \<rparr>"

text \<open>Two proposed rows of one key: an archived call, then the same call as posted.\<close>

definition archived_write :: row where
  "archived_write =
     \<lparr> opp_status = Some ''archived'', status_confidence = 95/100, is_rolling = Some False,
       rolling_evidence = False, normalized_status = ''archived'',
       status_reason = Some ''source_archived'', next_deadline_at = None,
       is_results_page = False, deadline_at = Some (Date 2025 6 30 23 59 59 0 0),
       close_at = None \<rparr>"

definition posted_write :: row where
  "posted_write =
     \<lparr> opp_status = Some ''posted'', status_confidence = 95/100, is_rolling = Some False,
       rolling_evidence = False, normalized_status = ''closed'',
       status_reason = Some ''deadline_passed'', next_deadline_at = None,
       is_results_page = False, deadline_at = Some (Date 2025 6 30 23 59 59 0 0),
       close_at = None \<rparr>"

text \<open>\<open>deadline_at IS NOT NULL AND deadline_at < NOW()\<close>\<close>

definition deadline_passed :: "instant option \<Rightarrow> instant \<Rightarrow> bool" where
  "deadline_passed d now = (case d of None \<Rightarrow> False | Some t \<Rightarrow> t < now)"

section \<open>The selection of next_deadline_at, in the words of the specification\<close>

text \<open>
  Every parsed candidate, in the order the code collects them: \<open>deadlines[]\<close>,
  \<open>deadline_evidence[]\<close>, the stored \<open>next_deadline_at\<close>, \<open>deadline_at\<close>.
\<close>

definition evidence_time :: "golib \<Rightarrow> DeadlineEvidence \<Rightarrow> instant option" where
  "evidence_time L ev = parseDeadlineCandidate L (ParsedDateISO ev)"

definition all_candidates :: "golib \<Rightarrow> Opportunity \<Rightarrow> instant list" where
  "all_candidates L opp =
     deadline_candidates L (Deadlines opp)
     @ List.map_filter (evidence_time L) (DeadlineEvidence opp)
     @ opt_list (NextDeadlineAt opp) @ opt_list (DeadlineAt opp)"

text \<open>
  The dates of the evidence entries that satisfy \<open>close_like\<close> and lie strictly after
  \<open>now\<close>.
\<close>

definition labeled_close_times ::
  "golib \<Rightarrow> (DeadlineEvidence \<Rightarrow> bool) \<Rightarrow> instant \<Rightarrow> DeadlineEvidence list \<Rightarrow> instant list" where
  "labeled_close_times L close_like now evs =
     List.map_filter
       (\<lambda>ev. case evidence_time L ev of
               None \<Rightarrow> None
             | Some t \<Rightarrow> if close_like ev \<and> now < t then Some t else None)
       evs"

text \<open>
  The earliest labeled-close date if there is one; otherwise the earliest candidate
  strictly after \<open>now\<close>; otherwise the stored \<open>next_deadline_at\<close>, which may be nil.
\<close>

definition next_deadline_rule ::
  "golib \<Rightarrow> (DeadlineEvidence \<Rightarrow> bool) \<Rightarrow> Opportunity \<Rightarrow> instant \<Rightarrow> instant option" where
  "next_deadline_rule L close_like opp now =
     (if labeled_close_times L close_like now (DeadlineEvidence opp) \<noteq> []
      then Some (Min (set (labeled_close_times L close_like now (DeadlineEvidence opp))))
      else if filter (\<lambda>t. now < t) (all_candidates L opp) \<noteq> []
      then Some (Min (set (filter (\<lambda>t. now < t) (all_candidates L opp))))
      else NextDeadlineAt opp)"

definition fecha_maxima :: string where
  "fecha_maxima = ''fecha m'' @ [CHR 0xC3, CHR 0xA1] @ ''xima''"

definition label_text :: "golib \<Rightarrow> DeadlineEvidence \<Rightarrow> string" where
  "label_text L ev = ToLower L (Label ev @ '' '' @ Snippet ev)"

text \<open>
  Close-like as claim C3 words it: cierre, deadline, closes, submission, fecha
  m\'axima, or postul when not start-like.
\<close>

definition claimed_close_like :: "golib \<Rightarrow> DeadlineEvidence \<Rightarrow> bool" where
  "claimed_close_like L ev =
     (Contains (label_text L ev) ''cierre'' \<or> Contains (label_text L ev) ''deadline''
      \<or> Contains (label_text L ev) ''closes'' \<or> Contains (label_text L ev) ''submission''
      \<or> Contains (label_text L ev) fecha_maxima
      \<or> (Contains (label_text L ev) ''postul'' \<and> \<not> isStartLike L ev))"

text \<open>The amended reading: close-like as above and, for every hint, not start-like.\<close>

definition close_not_start :: "golib \<Rightarrow> DeadlineEvidence \<Rightarrow> bool" where
  "close_not_start L ev = (claimed_close_like L ev \<and> \<not> isStartLike L ev)"

text \<open>The scenario of the specification: labeled close wins over start.\<close>

definition labeled_close_scenario :: Opportunity where
  "labeled_close_scenario =
     zero_Opportunity\<lparr> DeadlineEvidence :=
       [zero_DeadlineEvidence\<lparr> ParsedDateISO := ''2026-02-10T23:59:59Z'',
                                Label := ''inicio de postulaciones'',
                                Snippet := ''Inicio de postulaciones'' \<rparr>,
        zero_DeadlineEvidence\<lparr> ParsedDateISO := ''2026-02-20T23:59:59Z'',
                                Label := ''cierre de postulaciones'',
                                Snippet := ''Cierre de postulaciones'' \<rparr>,
        zero_DeadlineEvidence\<lparr> ParsedDateISO := ''2026-03-01T23:59:59Z'',
                                Label := ''deadline'',
                                Snippet := ''Submission deadline'' \<rparr>] \<rparr>"

text \<open>
  An opportunity whose only close-like entry also mentions the start of the call.
\<close>

definition start_and_deadline_scenario :: Opportunity where
  "start_and_deadline_scenario =
     zero_Opportunity\<lparr> DeadlineEvidence :=
       [zero_DeadlineEvidence\<lparr> ParsedDateISO := ''2026-02-10T23:59:59Z'',
                                Label := ''inicio de postulaciones'',
                                Snippet := ''Inicio de postulaciones'' \<rparr>,
        zero_DeadlineEvidence\<lparr> ParsedDateISO := ''2026-03-01T23:59:59Z'',
                                Label := ''deadline'',
                                Snippet := ''Start of the call and submission deadline'' \<rparr>] \<rparr>"


text \<open>The running minimum kept by the loops of \<open>pickNextDeadline\<close>.\<close>

definition keep_earlier :: "instant option \<Rightarrow> instant \<Rightarrow> instant option" where
  "keep_earlier best t =
     (case best of None \<Rightarrow> Some t | Some b \<Rightarrow> if t < b then Some t else Some b)"


section \<open>The results-page rule, in the words of the specification\<close>

definition results_text :: "golib \<Rightarrow> Opportunity \<Rightarrow> string" where
  "results_text L opp =
     ToLower L (Join [Title opp, Summary opp, HTMLToText L (Description opp),
                      SourceStatusRaw opp] '' \<newline> '')"

definition whitelisted_active :: "golib \<Rightarrow> Opportunity \<Rightarrow> bool" where
  "whitelisted_active L opp =
     (ToLower L (OppStatus opp) \<in> {''posted'', ''active'', ''open'', ''forecasted''})"

text \<open>
  The rule of claim C2: a results keyword in the text of title, summary, description
  and source_status_raw, and an \<open>opp_status\<close> that is not a whitelisted active value.
\<close>

definition claimed_results_rule :: "golib \<Rightarrow> Opportunity \<Rightarrow> bool" where
  "claimed_results_rule L opp =
     (ContainsAny (results_text L opp) resultsKeywords \<and> \<not> whitelisted_active L opp)"

text \<open>The classification as a results page.\<close>

definition is_results_decision :: "StatusDecision \<Rightarrow> bool" where
  "is_results_decision d =
     (NormalizedStatus' d = ''closed'' \<and> StatusReason' d = ''results_page''
      \<and> StatusConfidence' d = 99/100 \<and> IsResultsPage' d)"

text \<open>
  A posted opportunity without any results keyword whose \<open>IsResultsPage\<close> flag was set
  by the extractor.
\<close>

definition flagged_posted_scenario :: Opportunity where
  "flagged_posted_scenario =
     zero_Opportunity\<lparr> Title := ''Research call'', OppStatus := ''posted'',
                        IsResultsPage := True,
                        DeadlineAt := Some (Date 2026 3 14 12 0 0 0 0) \<rparr>"

text \<open>Scenario 6 of the specification, thirty days before the deadline.\<close>

definition grants_gov_scenario :: Opportunity where
  "grants_gov_scenario =
     zero_Opportunity\<lparr> ExternalURL := ''https://www.grants.gov/search-results-detail/HHS-NIH-123'',
                        OppStatus := ''posted'',
                        DeadlineAt := Some (Date 2026 3 14 12 0 0 0 0) \<rparr>"

text \<open>An opportunity of unknown status with a deadline ahead, as in \<open>TestUpdateStatus\<close>.\<close>

definition unknown_status_scenario :: Opportunity where
  "unknown_status_scenario =
     zero_Opportunity\<lparr> Title := ''Research call'', OppStatus := ''unknown'',
                        DeadlineAt := Some (Date 2026 3 14 12 0 0 0 0) \<rparr>"


section \<open>Date-only evidence and the zone of its source\<close>

text \<open>
  A \<open>time.Time\<close> with the location it is shown in: the instant and the offset of the
  location east of UTC in seconds.  \<open>Year\<close>, \<open>Month\<close> and \<open>Day\<close> read the date in that
  location.
\<close>

record Time =
  instant :: instant
  zone_offset :: int








section \<open>The listing query\<close>

text \<open>
  The columns the WHERE clause of \<open>ListOpportunities\<close> reads, added to the lifecycle
  columns of \<open>row\<close>.  A nullable column is an option.
\<close>

record listing_row = row +
  title :: string
  source_domain :: string
  region :: "string option"
  funder_type :: "string option"
  country :: "string option"
  agency_code :: "string option"
  agency_name :: "string option"
  amount_min :: "rat option"
  amount_max :: "rat option"
  categories :: "string list option"
  eligibility :: "string list option"

text \<open>
  \<open>ListParams\<close>; a field whose name an \<open>Opportunity\<close> or \<open>DeadlineEvidence\<close> field
  already has carries a prime.  \<open>IsRolling'\<close> is a \<open>*bool\<close>.
\<close>

record ListParams =
  Query :: string
  QueryEmbedding :: "rat list"
  Source' :: string
  MinAmount :: rat
  MaxAmount :: rat
  DeadlineDays :: int
  IsRolling' :: "bool option"
  Limit :: int
  Offset :: int
  Categories' :: "string list"
  Eligibility' :: "string list"
  Region' :: "string list"
  FunderType' :: "string list"
  Country' :: "string list"
  AgencyCode' :: string
  AgencyName' :: "string list"
  SortBy :: string
  Status :: string
  ExcludeExpired :: bool

text \<open>
  SQL conditions have three values; \<open>None\<close> is unknown (NULL).  A row is selected when
  the WHERE condition is true.
\<close>

definition sql_and :: "bool option \<Rightarrow> bool option \<Rightarrow> bool option" where
  "sql_and a b =
     (if a = Some False \<or> b = Some False then Some False
      else if a = Some True \<and> b = Some True then Some True else None)"

definition sql_or :: "bool option \<Rightarrow> bool option \<Rightarrow> bool option" where
  "sql_or a b =
     (if a = Some True \<or> b = Some True then Some True
      else if a = Some False \<and> b = Some False then Some False else None)"

definition sql_eq :: "'a option \<Rightarrow> 'a \<Rightarrow> bool option" where
  "sql_eq col v = (case col of None \<Rightarrow> None | Some x \<Rightarrow> Some (x = v))"

definition sql_ge :: "('a::linorder) option \<Rightarrow> 'a \<Rightarrow> bool option" where
  "sql_ge col v = (case col of None \<Rightarrow> None | Some x \<Rightarrow> Some (v \<le> x))"

definition sql_le :: "('a::linorder) option \<Rightarrow> 'a \<Rightarrow> bool option" where
  "sql_le col v = (case col of None \<Rightarrow> None | Some x \<Rightarrow> Some (x \<le> v))"

text \<open>\<open>col = ANY($n)\<close> for a text array parameter without NULL elements.\<close>

definition sql_any :: "string option \<Rightarrow> string list \<Rightarrow> bool option" where
  "sql_any col vs = (case col of None \<Rightarrow> None | Some x \<Rightarrow> Some (x \<in> set vs))"

text \<open>\<open>col && $n\<close>: the arrays have an element in common.\<close>

definition sql_overlap :: "string list option \<Rightarrow> string list \<Rightarrow> bool option" where
  "sql_overlap col vs = (case col of None \<Rightarrow> None | Some xs \<Rightarrow> Some (set xs \<inter> set vs \<noteq> {}))"

text \<open>
  \<open>buildOpenTabConstraint\<close>: the three conditions its text appends to the WHERE clause
  with \<open>AND\<close>; \<open>now\<close> is the value of \<open>NOW()\<close>.
\<close>

definition buildOpenTabConstraint :: "instant \<Rightarrow> (listing_row \<Rightarrow> bool option) list" where
  "buildOpenTabConstraint now =
     [\<lambda>r. Some (normalized_status r = ''open''),
      \<lambda>r. Some (is_results_page r = False),
      \<lambda>r. sql_or (sql_or (Some (rolling_evidence r = True)) (sql_ge (next_deadline_at r) now))
                  (sql_ge (close_at r) now)]"

definition sanitizeStringSlice :: "golib \<Rightarrow> string list \<Rightarrow> string list" where
  "sanitizeStringSlice L values = filter (\<lambda>t. t \<noteq> []) (map (TrimSpace L) values)"

definition day_ns :: int where
  "day_ns = 86400 * 1000000000"

text \<open>
  The conditions of the WHERE clause, in the order \<open>ListOpportunities\<close> appends them; the
  clause is their conjunction (after \<open>1=1\<close>).  The full-text condition
  \<open>(search_vector @@ plainto_tsquery('english', $q) OR title ILIKE '%' || $q || '%')\<close> is
  the parameter \<open>text_match\<close>.
\<close>

definition status_conditions :: "instant \<Rightarrow> string \<Rightarrow> (listing_row \<Rightarrow> bool option) list" where
  "status_conditions now status =
     (let targetStatus0 = (if status = [] then ''open'' else status);
          targetStatus = (if targetStatus0 = ''active'' then ''open'' else targetStatus0)
      in if targetStatus = ''open'' then buildOpenTabConstraint now
         else if targetStatus = ''all'' then []
         else if targetStatus = ''closed''
         then [\<lambda>r. Some (normalized_status r = ''closed'' \<or> normalized_status r = ''archived'')]
         else [\<lambda>r. Some (normalized_status r
                            = (if targetStatus = ''posted'' then ''open'' else targetStatus))])"

definition where_conditions ::
  "golib \<Rightarrow> (string \<Rightarrow> listing_row \<Rightarrow> bool option) \<Rightarrow> instant \<Rightarrow> ListParams
     \<Rightarrow> (listing_row \<Rightarrow> bool option) list" where
  "where_conditions L text_match now params =
     (if Query params \<noteq> [] then [text_match (Query params)] else [])
     @ (if Source' params \<noteq> [] then [\<lambda>r. Some (source_domain r = Source' params)] else [])
     @ (if Region' params \<noteq> [] then [\<lambda>r. sql_any (region r) (Region' params)] else [])
     @ (if FunderType' params \<noteq> [] then [\<lambda>r. sql_any (funder_type r) (FunderType' params)] else [])
     @ (if Country' params \<noteq> [] then [\<lambda>r. sql_any (country r) (Country' params)] else [])
     @ (if AgencyCode' params \<noteq> [] then [\<lambda>r. sql_eq (agency_code r) (AgencyCode' params)] else [])
     @ (if AgencyName' params \<noteq> [] then [\<lambda>r. sql_any (agency_name r) (AgencyName' params)] else [])
     @ (if MinAmount params > 0 then [\<lambda>r. sql_ge (amount_max r) (MinAmount params)] else [])
     @ (if MaxAmount params > 0 then [\<lambda>r. sql_le (amount_min r) (MaxAmount params)] else [])
     @ status_conditions now (Status params)
     @ (if DeadlineDays params > 0
        then [\<lambda>r. sql_or (sql_eq (is_rolling r) True)
                     (sql_and (sql_and (Some (next_deadline_at r \<noteq> None))
                                       (sql_ge (next_deadline_at r) now))
                              (sql_le (next_deadline_at r) (now + DeadlineDays params * day_ns)))]
        else [])
     @ (case IsRolling' params of Some b \<Rightarrow> [\<lambda>r. sql_eq (is_rolling r) b] | None \<Rightarrow> [])
     @ (let cs = (if Categories' params \<noteq> []
                  then sanitizeStringSlice L (Categories' params) else Categories' params)
        in if cs \<noteq> [] then [\<lambda>r. sql_overlap (categories r) cs] else [])
     @ (let es = (if Eligibility' params \<noteq> []
                  then sanitizeStringSlice L (Eligibility' params) else Eligibility' params)
        in if es \<noteq> [] then [\<lambda>r. sql_overlap (eligibility r) es] else [])"

text \<open>The row satisfies the WHERE clause: every condition is true.\<close>

definition selected ::
  "golib \<Rightarrow> (string \<Rightarrow> listing_row \<Rightarrow> bool option) \<Rightarrow> instant \<Rightarrow> ListParams \<Rightarrow> listing_row \<Rightarrow> bool" where
  "selected L text_match now params r =
     list_all (\<lambda>c. c r = Some True) (where_conditions L text_match now params)"

text \<open>The zero value \<open>ListParams{}\<close>, an open row and the same row as a results page.\<close>

definition zero_ListParams :: ListParams where
  "zero_ListParams =
     \<lparr> Query = [], QueryEmbedding = [], Source' = [], MinAmount = 0, MaxAmount = 0,
       DeadlineDays = 0, IsRolling' = None, Limit = 20, Offset = 0, Categories' = [],
       Eligibility' = [], Region' = [], FunderType' = [], Country' = [], AgencyCode' = [],
       AgencyName' = [], SortBy = [], Status = [], ExcludeExpired = False \<rparr>"

definition open_row :: listing_row where
  "open_row =
     \<lparr> opp_status = Some ''posted'', status_confidence = 93/100, is_rolling = Some False,
       rolling_evidence = False, normalized_status = ''open'',
       status_reason = Some ''future_deadline'',
       next_deadline_at = Some (Date 2026 3 14 12 0 0 0 0), is_results_page = False,
       deadline_at = Some (Date 2026 3 14 12 0 0 0 0), close_at = None,
       title = ''Research call'', source_domain = ''example.org'', region = None,
       funder_type = None, country = None, agency_code = None, agency_name = None,
       amount_min = None, amount_max = None, categories = None, eligibility = None \<rparr>"

definition no_text_match :: "string \<Rightarrow> listing_row \<Rightarrow> bool option" where
  "no_text_match q r = Some False"


section \<open>The address check of the fetcher\<close>

unbundle bit_operations_syntax

text \<open>
  A \<open>net.IP\<close> is a byte slice of length 4 or 16, or nil (\<open>None\<close>).  The methods of
  \<open>net.IP\<close> that \<open>isPrivateIP\<close> calls, as package \<open>net\<close> defines them.
\<close>

type_synonym IP = "8 word list"

definition v4InV6Prefix :: IP where
  "v4InV6Prefix = [0, 0, 0, 0, 0, 0, 0, 0, 0, 0, 0xff, 0xff]"

definition To4 :: "IP \<Rightarrow> IP option" where
  "To4 ip =
     (if length ip = 4 then Some ip
      else if length ip = 16 \<and> take 12 ip = v4InV6Prefix then Some (drop 12 ip)
      else None)"

definition IP_Equal :: "IP \<Rightarrow> IP \<Rightarrow> bool" where
  "IP_Equal ip x =
     (if length ip = length x then ip = x
      else if length ip = 4 \<and> length x = 16 then take 12 x = v4InV6Prefix \<and> ip = drop 12 x
      else if length ip = 16 \<and> length x = 4 then take 12 ip = v4InV6Prefix \<and> drop 12 ip = x
      else False)"

definition IPv4zero :: IP where
  "IPv4zero = v4InV6Prefix @ [0, 0, 0, 0]"

definition IPv6unspecified :: IP where
  "IPv6unspecified = [0, 0, 0, 0, 0, 0, 0, 0, 0, 0, 0, 0, 0, 0, 0, 0]"

definition IPv6loopback :: IP where
  "IPv6loopback = [0, 0, 0, 0, 0, 0, 0, 0, 0, 0, 0, 0, 0, 0, 0, 1]"

definition IsUnspecified :: "IP \<Rightarrow> bool" where
  "IsUnspecified ip = (IP_Equal ip IPv4zero \<or> IP_Equal ip IPv6unspecified)"

definition IsLoopback :: "IP \<Rightarrow> bool" where
  "IsLoopback ip =
     (case To4 ip of Some ip4 \<Rightarrow> ip4 ! 0 = 127 | None \<Rightarrow> IP_Equal ip IPv6loopback)"

definition IsPrivate :: "IP \<Rightarrow> bool" where
  "IsPrivate ip =
     (case To4 ip of
        Some ip4 \<Rightarrow> ip4 ! 0 = 10 \<or> (ip4 ! 0 = 172 \<and> (ip4 ! 1) AND 0xf0 = 16)
                    \<or> (ip4 ! 0 = 192 \<and> ip4 ! 1 = 168)
      | None \<Rightarrow> length ip = 16 \<and> (ip ! 0) AND 0xfe = 0xfc)"

definition IsMulticast :: "IP \<Rightarrow> bool" where
  "IsMulticast ip =
     (case To4 ip of
        Some ip4 \<Rightarrow> (ip4 ! 0) AND 0xf0 = 0xe0
      | None \<Rightarrow> length ip = 16 \<and> ip ! 0 = 0xff)"

definition IsLinkLocalMulticast :: "IP \<Rightarrow> bool" where
  "IsLinkLocalMulticast ip =
     (case To4 ip of
        Some ip4 \<Rightarrow> ip4 ! 0 = 224 \<and> ip4 ! 1 = 0 \<and> ip4 ! 2 = 0
      | None \<Rightarrow> length ip = 16 \<and> ip ! 0 = 0xff \<and> (ip ! 1) AND 0x0f = 0x02)"

definition IsLinkLocalUnicast :: "IP \<Rightarrow> bool" where
  "IsLinkLocalUnicast ip =
     (case To4 ip of
        Some ip4 \<Rightarrow> ip4 ! 0 = 169 \<and> ip4 ! 1 = 254
      | None \<Rightarrow> length ip = 16 \<and> ip ! 0 = 0xfe \<and> (ip ! 1) AND 0xc0 = 0x80)"

text \<open>
  \<open>netip.Addr\<close> without a zone: the family and the address as a number.
  \<open>netip.Prefix\<close>: an address and a number of bits.
\<close>

datatype Addr = Addr4 nat | Addr6 nat

definition bytes_value :: "IP \<Rightarrow> nat" where
  "bytes_value bs = foldl (\<lambda>acc b. acc * 256 + unat b) 0 bs"

definition AddrFromSlice :: "IP \<Rightarrow> Addr option" where
  "AddrFromSlice ip =
     (if length ip = 4 then Some (Addr4 (bytes_value ip))
      else if length ip = 16 then Some (Addr6 (bytes_value ip))
      else None)"

definition Unmap :: "Addr \<Rightarrow> Addr" where
  "Unmap a =
     (case a of
        Addr4 v \<Rightarrow> Addr4 v
      | Addr6 v \<Rightarrow> if v div 2 ^ 32 = 0xffff then Addr4 (v mod 2 ^ 32) else Addr6 v)"

definition Prefix_Contains :: "Addr \<times> nat \<Rightarrow> Addr \<Rightarrow> bool" where
  "Prefix_Contains p a =
     (case (fst p, a) of
        (Addr4 pv, Addr4 v) \<Rightarrow> v div 2 ^ (32 - snd p) = pv div 2 ^ (32 - snd p)
      | (Addr6 pv, Addr6 v) \<Rightarrow> v div 2 ^ (128 - snd p) = pv div 2 ^ (128 - snd p)
      | _ \<Rightarrow> False)"

text \<open>
  \<open>blockedPrefixes\<close>: what \<open>netip.ParsePrefix\<close> gives for the eight strings of
  \<open>blockedPrefixStrings\<close>: 127.0.0.0/8, 10.0.0.0/8, 172.16.0.0/12, 192.168.0.0/16,
  169.254.0.0/16, ::1/128, fc00::/7, fe80::/10.
\<close>

definition blockedPrefixes :: "(Addr \<times> nat) list" where
  "blockedPrefixes =
     [(Addr4 (127 * 2 ^ 24), 8),
      (Addr4 (10 * 2 ^ 24), 8),
      (Addr4 (172 * 2 ^ 24 + 16 * 2 ^ 16), 12),
      (Addr4 (192 * 2 ^ 24 + 168 * 2 ^ 16), 16),
      (Addr4 (169 * 2 ^ 24 + 254 * 2 ^ 16), 16),
      (Addr6 1, 128),
      (Addr6 (0xfc00 * 2 ^ 112), 7),
      (Addr6 (0xfe80 * 2 ^ 112), 10)]"

definition isPrivateIP :: "IP option \<Rightarrow> bool" where
  "isPrivateIP ipo =
     (case ipo of
        None \<Rightarrow> True
      | Some ip \<Rightarrow>
          if IsLoopback ip \<or> IsLinkLocalMulticast ip \<or> IsLinkLocalUnicast ip \<or> IsMulticast ip
             \<or> IsPrivate ip \<or> IsUnspecified ip then True
          else if (case AddrFromSlice ip of
                     Some addr \<Rightarrow> list_ex (\<lambda>prefix. Prefix_Contains prefix (Unmap addr)) blockedPrefixes
                   | None \<Rightarrow> False) then True
          else (case To4 ip of
                  Some ip4 \<Rightarrow>
                    if ip4 ! 0 = 10 then True
                    else if ip4 ! 0 = 172 \<and> 16 \<le> ip4 ! 1 \<and> ip4 ! 1 \<le> 31 then True
                    else if ip4 ! 0 = 192 \<and> ip4 ! 1 = 168 then True
                    else if ip4 ! 0 = 169 \<and> ip4 ! 1 = 254 then True
                    else False
                | None \<Rightarrow> False))"

text \<open>
  \<open>isPrivateOrSpecialIP\<close> of the API server, which guards \<open>POST /ingest?url=\<close>.
\<close>

definition isPrivateOrSpecialIP :: "IP option \<Rightarrow> bool" where
  "isPrivateOrSpecialIP ipo =
     (case ipo of
        None \<Rightarrow> True
      | Some ip \<Rightarrow>
          if IsLoopback ip \<or> IsPrivate ip \<or> IsUnspecified ip \<or> IsMulticast ip
             \<or> IsLinkLocalUnicast ip \<or> IsLinkLocalMulticast ip then True
          else (case To4 ip of
                  Some ip4 \<Rightarrow>
                    if ip4 ! 0 = 100 \<and> (ip4 ! 1) AND 0xC0 = 64 then True
                    else if ip4 ! 0 = 169 \<and> ip4 ! 1 = 254 then True
                    else False
                | None \<Rightarrow> False))"

text \<open>
  \<open>safeDialContext\<close> for an address already split into host and port; \<open>LookupIP\<close> is
  the resolver (\<open>None\<close> is its error).  \<open>Dial\<close> stands for the call of
  \<open>d.DialContext\<close>, the only place a connection is made.
\<close>

datatype dial = LookupError | BlockedPrivateIP | Dial

definition safeDialContext :: "(string \<Rightarrow> IP option list option) \<Rightarrow> string \<Rightarrow> dial" where
  "safeDialContext LookupIP host =
     (case LookupIP host of
        None \<Rightarrow> LookupError
      | Some ips \<Rightarrow> if list_ex isPrivateIP ips then BlockedPrivateIP else Dial)"

text \<open>
  \<open>safeCheckRedirect\<close> for a request with a non-nil URL of the given scheme and host
  name, after \<open>via\<close> earlier requests; the result is the error, \<open>None\<close> for nil.
\<close>

definition safeCheckRedirect ::
  "golib \<Rightarrow> (string \<Rightarrow> IP option list option) \<Rightarrow> nat \<Rightarrow> string \<Rightarrow> string \<Rightarrow> string option" where
  "safeCheckRedirect L LookupIP via scheme host =
     (if via \<ge> 10 then Some ''stopped after 10 redirects''
      else if scheme \<noteq> ''http'' \<and> scheme \<noteq> ''https'' then Some ''redirect scheme blocked''
      else if host = [] then Some ''redirect host missing''
      else if EqualFold L host ''localhost'' \<or> HasSuffix (ToLower L host) ''.local''
      then Some ''redirect to internal host blocked''
      else (case LookupIP host of
              None \<Rightarrow> Some ''lookup failed''
            | Some ips \<Rightarrow>
                if ips = [] then Some ''redirect host resolved to no addresses''
                else if list_ex isPrivateIP ips then Some ''redirect to private IP blocked''
                else None))"

text \<open>
  An address of the shared address space 100.64.0.0/10, in its 4-byte and its 16-byte
  form, and a resolver that answers with it.
\<close>

definition cgnat4 :: IP where
  "cgnat4 = [100, 64, 0, 1]"

definition cgnat16 :: IP where
  "cgnat16 = v4InV6Prefix @ [100, 64, 0, 1]"

definition cgnat_resolver :: "string \<Rightarrow> IP option list option" where
  "cgnat_resolver host = Some [Some cgnat4]"


section \<open>URLs: the functions of \<open>net/url\<close> under CanonicalizeURL\<close>





















record Userinfo =
  username :: string
  password :: string
  passwordSet :: bool

record URL =
  Scheme :: string
  Opaque :: string
  User :: "Userinfo option"
  Host :: string
  Path :: string
  RawPath :: string
  OmitHost :: bool
  ForceQuery :: bool
  RawQuery :: string
  Fragment :: string
  RawFragment :: string





























definition slash_path_url :: string where
  "slash_path_url = ''http:/%2FEXAMPLE.com/a b''"


section \<open>The dates of a page: evidence, candidates and the raw deadline\<close>
















section \<open>Properties of the upsert\<close>

lemma trigger_status_confidence:
  "status_confidence (update_opportunity_status_on_deadline now r) = status_confidence r"
  by (simp add: update_opportunity_status_on_deadline_def split: option.splits)

lemma upsert_status_confidence_new:
  "status_confidence (upsert now None w) = status_confidence w"
  by (simp add: upsert_def Let_def trigger_status_confidence)

lemma upsert_status_confidence_old:
  "status_confidence (upsert now (Some r) w) = max (status_confidence w) (status_confidence r)"
  by (simp add: upsert_def Let_def trigger_status_confidence on_conflict_update_def)

lemma trigger_strong:
  "opp_status r = Some s \<Longrightarrow> s \<in> strong_status \<Longrightarrow>
   update_opportunity_status_on_deadline now r = r"
  by (simp add: update_opportunity_status_on_deadline_def split: option.splits)

lemma trigger_opp_status_cases:
  "opp_status (update_opportunity_status_on_deadline now w) =
     (case opp_status w of
        None \<Rightarrow> None
      | Some s \<Rightarrow> if deadline_passed (deadline_at w) now \<and> s \<notin> strong_status
                  then Some ''closed'' else Some s)"
  by (simp add: update_opportunity_status_on_deadline_def deadline_passed_def
        split: option.splits)

lemma closed_strong: "''closed'' \<in> strong_status"
  by (simp add: strong_status_def)

lemma on_conflict_weak:
  assumes "s \<in> strong_status" and "ex = None \<or> ex = Some [] \<or> ex = Some ''posted''"
  shows "on_conflict_opp_status (Some s) ex = Some s"
  using assms by (auto simp: on_conflict_opp_status_def)

lemma on_conflict_closed: "on_conflict_opp_status old (Some ''closed'') = Some ''closed''"
  by (simp add: on_conflict_opp_status_def)

lemma opp_status_on_conflict_update:
  "opp_status (on_conflict_update old ex) =
   on_conflict_opp_status (opp_status old) (opp_status ex)"
  by (simp add: on_conflict_update_def)

lemma upsert_Some:
  "upsert now (Some r) w =
     update_opportunity_status_on_deadline now
       (on_conflict_update r (update_opportunity_status_on_deadline now w))"
  by (simp add: upsert_def Let_def)

lemma excluded_weak_or_closed:
  assumes "opp_status w = None \<or> opp_status w = Some [] \<or> opp_status w = Some ''posted''"
  shows "opp_status (update_opportunity_status_on_deadline now w)
           \<in> {None, Some [], Some ''posted'', Some ''closed''}"
  using assms by (auto simp: trigger_opp_status_cases split: if_splits)

text \<open>A weak write never takes a row out of closed, archived, funded.\<close>

lemma upsert_opp_status_strong:
  assumes "opp_status r = Some s" "s \<in> strong_status"
    and "opp_status w = None \<or> opp_status w = Some [] \<or> opp_status w = Some ''posted''"
  shows "\<exists>s'. opp_status (upsert now (Some r) w) = Some s' \<and> s' \<in> strong_status"
proof -
  let ?ex = "update_opportunity_status_on_deadline now w"
  let ?new = "on_conflict_update r ?ex"
  have "opp_status ?ex = Some ''closed''
        \<or> (opp_status ?ex = None \<or> opp_status ?ex = Some [] \<or> opp_status ?ex = Some ''posted'')"
    using excluded_weak_or_closed[OF assms(3), of now] by auto
  then have "\<exists>s'. opp_status ?new = Some s' \<and> s' \<in> strong_status"
  proof
    assume "opp_status ?ex = Some ''closed''"
    then show ?thesis
      by (simp add: opp_status_on_conflict_update on_conflict_closed closed_strong)
  next
    assume "opp_status ?ex = None \<or> opp_status ?ex = Some [] \<or> opp_status ?ex = Some ''posted''"
    from on_conflict_weak[OF assms(2) this] show ?thesis
      by (simp add: opp_status_on_conflict_update assms(1) assms(2))
  qed
  then obtain s' where s': "opp_status ?new = Some s'" "s' \<in> strong_status" by blast
  from trigger_strong[OF s'] have "update_opportunity_status_on_deadline now ?new = ?new" .
  then show ?thesis using s' by (simp add: upsert_Some)
qed

text \<open>
  A weak write leaves the stored status as it is when the trigger does not rewrite the
  proposed row: the proposed status is NULL, or the proposed deadline has not passed.
\<close>

lemma upsert_opp_status_kept:
  assumes "opp_status r = Some s" "s \<in> strong_status"
    and "opp_status w = None \<or> opp_status w = Some [] \<or> opp_status w = Some ''posted''"
    and "opp_status w = None \<or> \<not> deadline_passed (deadline_at w) now"
  shows "opp_status (upsert now (Some r) w) = Some s"
proof -
  let ?ex = "update_opportunity_status_on_deadline now w"
  let ?new = "on_conflict_update r ?ex"
  have "opp_status ?ex = opp_status w"
    using assms(4) by (auto simp: trigger_opp_status_cases split: option.splits)
  then have "opp_status ?ex = None \<or> opp_status ?ex = Some [] \<or> opp_status ?ex = Some ''posted''"
    using assms(3) by simp
  from on_conflict_weak[OF assms(2) this]
  have new: "opp_status ?new = Some s"
    by (simp add: opp_status_on_conflict_update assms(1))
  from trigger_strong[OF new assms(2)] show ?thesis using new by (simp add: upsert_Some)
qed

lemma upserts_confidence_from:
  "upserts (Some r0) ws = Some r \<Longrightarrow>
   status_confidence r =
     Max (insert (status_confidence r0) ((\<lambda>p. status_confidence (snd p)) ` set ws))"
proof (induction ws arbitrary: r0)
  case Nil
  then show ?case by simp
next
  case (Cons a ws)
  obtain now w where a: "a = (now, w)" by (cases a)
  from Cons.prems a have "upserts (Some (upsert now (Some r0) w)) ws = Some r" by simp
  from Cons.IH[OF this]
  have "status_confidence r =
        Max (insert (max (status_confidence w) (status_confidence r0))
               ((\<lambda>p. status_confidence (snd p)) ` set ws))"
    by (simp add: upsert_status_confidence_old)
  also have "\<dots> = Max (insert (status_confidence r0)
                  ((\<lambda>p. status_confidence (snd p)) ` set (a # ws)))"
    using a
    by (cases "ws = []") (simp_all add: max.commute max.left_commute max.assoc)
  finally show ?case .
qed

lemma upserts_Some: "\<exists>r. upserts (Some r0) ws = Some r"
  by (induction ws arbitrary: r0) auto

lemma upserts_confidence_max:
  assumes "ws \<noteq> []"
  shows "\<exists>r. upserts None ws = Some r
             \<and> status_confidence r = Max ((\<lambda>p. status_confidence (snd p)) ` set ws)"
proof -
  from assms obtain now w rest where ws: "ws = (now, w) # rest"
    by (cases ws) auto
  obtain r where r: "upserts (Some (upsert now None w)) rest = Some r"
    using upserts_Some by blast
  from upserts_confidence_from[OF r]
  have "status_confidence r = Max ((\<lambda>p. status_confidence (snd p)) ` set ws)"
    by (simp add: ws upsert_status_confidence_new)
  with r ws show ?thesis by simp
qed

text \<open>
  C1, as the statement and the deadline trigger make it.  For the writes of one key:
  the stored \<open>status_confidence\<close> never decreases, and after any non-empty sequence of
  writes it is the maximum of the confidences written.  When the stored \<open>opp_status\<close> is
  closed, archived or funded and the incoming one is empty (NULL or the empty string) or
  posted, the stored status stays one of closed, archived, funded; it stays the same
  value when the incoming status is NULL or the incoming \<open>deadline_at\<close> is not before
  the time of the write.
\<close>

theorem upsert_monotonic_trust:
  "status_confidence r \<le> status_confidence (upsert now (Some r) w)
   \<and> (ws \<noteq> [] \<longrightarrow>
        (\<exists>r'. upserts None ws = Some r'
              \<and> status_confidence r' = Max ((\<lambda>p. status_confidence (snd p)) ` set ws)))
   \<and> (opp_status r = Some s \<and> s \<in> strong_status
        \<and> (opp_status w = None \<or> opp_status w = Some [] \<or> opp_status w = Some ''posted'')
       \<longrightarrow> (\<exists>s'. opp_status (upsert now (Some r) w) = Some s' \<and> s' \<in> strong_status)
           \<and> (opp_status w = None \<or> \<not> deadline_passed (deadline_at w) now
                \<longrightarrow> opp_status (upsert now (Some r) w) = Some s))"
proof (intro conjI impI)
  show "status_confidence r \<le> status_confidence (upsert now (Some r) w)"
    by (simp add: upsert_status_confidence_old)
next
  assume "ws \<noteq> []"
  then show "\<exists>r'. upserts None ws = Some r'
              \<and> status_confidence r' = Max ((\<lambda>p. status_confidence (snd p)) ` set ws)"
    by (rule upserts_confidence_max)
next
  assume h: "opp_status r = Some s \<and> s \<in> strong_status
        \<and> (opp_status w = None \<or> opp_status w = Some [] \<or> opp_status w = Some ''posted'')"
  then show "\<exists>s'. opp_status (upsert now (Some r) w) = Some s' \<and> s' \<in> strong_status"
    using upsert_opp_status_strong by blast
next
  assume h: "opp_status r = Some s \<and> s \<in> strong_status
        \<and> (opp_status w = None \<or> opp_status w = Some [] \<or> opp_status w = Some ''posted'')"
    and k: "opp_status w = None \<or> \<not> deadline_passed (deadline_at w) now"
  from h k show "opp_status (upsert now (Some r) w) = Some s"
    using upsert_opp_status_kept by blast
qed

text \<open>
  The theorem at a stored archived row and a posted write made before the deadline,
  2025-06-01 against 2025-06-30: the row stays archived and its confidence is the
  maximum of the two writes.
\<close>

theorem upsert_monotonic_trust_witness:
  "status_confidence archived_write
      \<le> status_confidence (upsert (Date 2025 6 1 0 0 0 0 0) (Some archived_write) posted_write)
   \<and> (\<exists>r'. upserts None [(Date 2025 5 1 0 0 0 0 0, archived_write),
                          (Date 2025 6 1 0 0 0 0 0, posted_write)] = Some r'
          \<and> status_confidence r' =
              Max ((\<lambda>p. status_confidence (snd p))
                     ` set [(Date 2025 5 1 0 0 0 0 0, archived_write),
                            (Date 2025 6 1 0 0 0 0 0, posted_write)]))
   \<and> opp_status (upsert (Date 2025 6 1 0 0 0 0 0) (Some archived_write) posted_write)
       = Some ''archived''"
proof -
  have h1: "opp_status archived_write = Some ''archived''"
    by (simp add: archived_write_def)
  have h2: "''archived'' \<in> strong_status"
    by (simp add: strong_status_def)
  have h3: "opp_status posted_write = Some ''posted''"
    by (simp add: posted_write_def)
  have h4: "\<not> deadline_passed (deadline_at posted_write) (Date 2025 6 1 0 0 0 0 0)"
    by code_simp
  have h5: "[(Date 2025 5 1 0 0 0 0 0, archived_write),
             (Date 2025 6 1 0 0 0 0 0, posted_write)] \<noteq> []"
    by simp
  from upsert_monotonic_trust[of archived_write "Date 2025 6 1 0 0 0 0 0" posted_write
        "[(Date 2025 5 1 0 0 0 0 0, archived_write), (Date 2025 6 1 0 0 0 0 0, posted_write)]"
        "''archived''"] h1 h2 h3 h4 h5
  show ?thesis by blast
qed

text \<open>
  C1 as the claim states it fails.  A row is stored as archived; a later write of the same
  key carries \<open>opp_status = 'posted'\<close> and a \<open>deadline_at\<close> that has passed (2025-06-30,
  written on 2026-02-01).  The BEFORE INSERT trigger turns the proposed status into
  closed, which is not a weak value for the CASE of the SET clause, and the stored
  status changes from archived to closed.
\<close>

theorem upsert_posted_changes_archived:
  "opp_status (upsert (Date 2026 1 15 0 0 0 0 0) None archived_write) = Some ''archived''
   \<and> opp_status posted_write = Some ''posted''
   \<and> opp_status (upsert (Date 2026 2 1 0 0 0 0 0)
                   (Some (upsert (Date 2026 1 15 0 0 0 0 0) None archived_write))
                   posted_write) = Some ''closed''"
  by code_simp

section \<open>Rolling flags of a stored row\<close>

lemma stamp_status_rolling:
  assumes "\<not> RollingEvidence (stamp_status L now opp)"
  shows "\<not> IsRolling (stamp_status L now opp)"
proof -
  have "\<exists>x. stamp_status L now opp
              = (if \<not> RollingEvidence x then x\<lparr> IsRolling := False \<rparr> else x)"
    unfolding stamp_status_def Let_def by (rule exI) (rule refl)
  then obtain x where x: "stamp_status L now opp
              = (if \<not> RollingEvidence x then x\<lparr> IsRolling := False \<rparr> else x)" ..
  show ?thesis
  proof (cases "RollingEvidence x")
    case True
    with x assms show ?thesis by simp
  next
    case False
    with x show ?thesis by simp
  qed
qed

lemma insert_keeps_rolling_invariant:
  "\<not> rolling_evidence (save_write L now None opp) \<Longrightarrow>
   is_rolling (save_write L now None opp) = Some False"
proof -
  assume a: "\<not> rolling_evidence (save_write L now None opp)"
  have flags:
    "rolling_evidence (update_opportunity_status_on_deadline now r) = rolling_evidence r"
    "is_rolling (update_opportunity_status_on_deadline now r) = is_rolling r" for r
    by (simp_all add: update_opportunity_status_on_deadline_def split: option.splits)
  from a have "\<not> RollingEvidence (stamp_status L now opp)"
    by (simp add: save_write_def upsert_def Let_def flags bound_row_def)
  from stamp_status_rolling[OF this] show ?thesis
    by (simp add: save_write_def upsert_def Let_def flags bound_row_def)
qed

text \<open>
  C5 at two writes of one key.  The first write stores a rolling call with rolling
  evidence.  The second write, of the same call without any rolling evidence, binds
  \<open>is_rolling = false\<close> and \<open>rolling_evidence = false\<close>; the SET clause takes
  \<open>rolling_evidence\<close> from the new row and ORs \<open>is_rolling\<close> with the stored one, and the
  stored row ends with \<open>rolling_evidence = false\<close> and \<open>is_rolling = true\<close>.
\<close>

theorem save_write_rolling_without_evidence:
  "rolling_evidence
     (save_write go_ascii (Date 2026 2 1 0 0 0 0 0)
        (Some (save_write go_ascii (Date 2026 1 15 0 0 0 0 0) None rolling_first))
        rolling_second) = False
   \<and> is_rolling
       (save_write go_ascii (Date 2026 2 1 0 0 0 0 0)
          (Some (save_write go_ascii (Date 2026 1 15 0 0 0 0 0) None rolling_first))
          rolling_second) = Some True"
  by code_simp

theorem save_write_rolling_without_evidence_witness:
  "is_rolling
     (save_write go_ascii (Date 2026 2 1 0 0 0 0 0)
        (Some (save_write go_ascii (Date 2026 1 15 0 0 0 0 0) None rolling_first))
        rolling_second) = Some True"
  using save_write_rolling_without_evidence by blast

section \<open>The selection of next_deadline_at\<close>

lemma keep_earlier_None: "keep_earlier None t = Some t"
  by (simp add: keep_earlier_def)

lemma keep_earlier_Some: "keep_earlier (Some b) t = Some (min t b)"
  by (auto simp: keep_earlier_def min_def)

lemma fold_keep_earlier_Some:
  "fold (\<lambda>t b. keep_earlier b t) xs (Some b) = Some (Min (insert b (set xs)))"
proof (induction xs arbitrary: b)
  case Nil
  then show ?case by simp
next
  case (Cons x xs)
  have "Min (insert (min x b) (set xs)) = Min (insert b (insert x (set xs)))"
  proof (cases "xs = []")
    case True
    then show ?thesis by (simp add: min.commute)
  next
    case False
    then have ne: "set xs \<noteq> {}" by simp
    have "Min (insert (min x b) (set xs)) = min (min x b) (Min (set xs))"
      using ne by simp
    also have "\<dots> = min b (min x (Min (set xs)))"
      by (simp add: min.commute min.left_commute)
    also have "\<dots> = Min (insert b (insert x (set xs)))"
      using ne by simp
    finally show ?thesis .
  qed
  then show ?case
    by (simp add: Cons.IH keep_earlier_Some)
qed

lemma fold_keep_earlier_None:
  "fold (\<lambda>t b. keep_earlier b t) xs None = (if xs = [] then None else Some (Min (set xs)))"
  by (cases xs) (simp_all add: keep_earlier_None fold_keep_earlier_Some)

lemma best_loop_step:
  "best_loop now (c # cs) best =
     (if \<not> now < c then best_loop now cs best else best_loop now cs (keep_earlier best c))"
  by (cases best) (simp_all add: keep_earlier_def)

lemma best_loop_fold:
  "best_loop now cs best = fold (\<lambda>t b. keep_earlier b t) (filter (\<lambda>t. now < t) cs) best"
proof (induction cs arbitrary: best)
  case Nil
  then show ?case by simp
next
  case (Cons c cs)
  show ?case
    unfolding best_loop_step by (simp add: Cons.IH)
qed

lemma evidence_loop_step:
  "evidence_loop L now (ev # evs) (cands, best) =
     (case evidence_time L ev of
        None \<Rightarrow> evidence_loop L now evs (cands, best)
      | Some t \<Rightarrow>
          evidence_loop L now evs
            (cands @ [t],
             if isCloseLike L ev \<and> \<not> isStartLike L ev \<and> now < t
             then keep_earlier best t else best))"
  by (cases best) (simp_all add: keep_earlier_def evidence_time_def split: option.splits)

lemma labeled_close_times_Nil: "labeled_close_times L P now [] = []"
  by (simp add: labeled_close_times_def List.map_filter_simps)

lemma labeled_close_times_Cons:
  "labeled_close_times L P now (ev # evs) =
     (case evidence_time L ev of
        None \<Rightarrow> labeled_close_times L P now evs
      | Some t \<Rightarrow> if P ev \<and> now < t then t # labeled_close_times L P now evs
                  else labeled_close_times L P now evs)"
  by (simp add: labeled_close_times_def List.map_filter_simps split: option.splits)

lemma evidence_loop_fold:
  "evidence_loop L now evs (cands, best) =
     (cands @ List.map_filter (evidence_time L) evs,
      fold (\<lambda>t b. keep_earlier b t)
        (labeled_close_times L (\<lambda>ev. isCloseLike L ev \<and> \<not> isStartLike L ev) now evs) best)"
proof (induction evs arbitrary: cands best)
  case Nil
  then show ?case by (simp add: labeled_close_times_Nil List.map_filter_simps)
next
  case (Cons ev evs)
  show ?case
    unfolding evidence_loop_step labeled_close_times_Cons
    by (cases "evidence_time L ev") (simp_all add: Cons.IH List.map_filter_simps)
qed

lemma pickNextDeadline_rule:
  "pickNextDeadline L opp now =
     next_deadline_rule L (\<lambda>ev. isCloseLike L ev \<and> \<not> isStartLike L ev) opp now"
proof -
  let ?close = "labeled_close_times L (\<lambda>ev. isCloseLike L ev \<and> \<not> isStartLike L ev) now (DeadlineEvidence opp)"
  let ?c = "deadline_candidates L (Deadlines opp) @ List.map_filter (evidence_time L) (DeadlineEvidence opp)"
  let ?future = "filter (\<lambda>t. now < t) (all_candidates L opp)"
  have loop: "evidence_loop L now (DeadlineEvidence opp) (deadline_candidates L (Deadlines opp), None)
          = (?c, if ?close = [] then None else Some (Min (set ?close)))"
    by (simp add: evidence_loop_fold fold_keep_earlier_None)
  have best: "best_loop now (all_candidates L opp) None
          = (if ?future = [] then None else Some (Min (set ?future)))"
    unfolding best_loop_fold fold_keep_earlier_None by (rule refl)
  show ?thesis
  proof (cases "?close = []")
    case True
    have "pickNextDeadline L opp now =
            (case best_loop now (all_candidates L opp) None of
               Some best \<Rightarrow> Some best | None \<Rightarrow> NextDeadlineAt opp)"
      unfolding pickNextDeadline_def loop using True by (simp add: all_candidates_def)
    also have "\<dots> = (if ?future = [] then NextDeadlineAt opp else Some (Min (set ?future)))"
      unfolding best by simp
    also have "\<dots> = next_deadline_rule L (\<lambda>ev. isCloseLike L ev \<and> \<not> isStartLike L ev) opp now"
      unfolding next_deadline_rule_def using True by simp
    finally show ?thesis .
  next
    case False
    have "pickNextDeadline L opp now = Some (Min (set ?close))"
      unfolding pickNextDeadline_def loop using False by simp
    also have "\<dots> = next_deadline_rule L (\<lambda>ev. isCloseLike L ev \<and> \<not> isStartLike L ev) opp now"
      unfolding next_deadline_rule_def using False by simp
    finally show ?thesis .
  qed
qed

lemma close_like_agree:
  assumes "\<not> Contains (label_text L ev) fecha_maxima"
  shows "(isCloseLike L ev \<and> \<not> isStartLike L ev) = close_not_start L ev"
  using assms
  by (auto simp: isCloseLike_def close_not_start_def claimed_close_like_def label_text_def Let_def)

lemma labeled_close_times_cong:
  assumes "\<forall>ev \<in> set evs. P ev = Q ev"
  shows "labeled_close_times L P now evs = labeled_close_times L Q now evs"
  using assms
  by (induction evs) (simp_all add: labeled_close_times_Nil labeled_close_times_Cons split: option.splits)

text \<open>
  C3, amended.  Over the opportunities whose evidence does not mention fecha m\'axima:
  \<open>pickNextDeadline\<close> returns the earliest strictly-future evidence date whose
  label and snippet are close-like (cierre, deadline, closes, submission, postul) and
  not start-like (inicio, apertura, start, opening), if there is one; otherwise the
  earliest strictly-future candidate among \<open>deadlines[]\<close>, \<open>deadline_evidence[]\<close>,
  the stored \<open>next_deadline_at\<close> and \<open>deadline_at\<close>; otherwise the stored
  \<open>next_deadline_at\<close>, nil when that is nil.
\<close>

theorem pickNextDeadline_labeled_close:
  assumes "\<forall>ev \<in> set (DeadlineEvidence opp). \<not> Contains (label_text L ev) fecha_maxima"
  shows "pickNextDeadline L opp now = next_deadline_rule L (close_not_start L) opp now"
proof -
  have "labeled_close_times L (\<lambda>ev. isCloseLike L ev \<and> \<not> isStartLike L ev) now (DeadlineEvidence opp)
        = labeled_close_times L (close_not_start L) now (DeadlineEvidence opp)"
    by (rule labeled_close_times_cong) (use assms close_like_agree in blast)
  then show ?thesis
    by (simp add: pickNextDeadline_rule next_deadline_rule_def)
qed


text \<open>
  The theorem at the scenario of the specification, 2026-02-01: inicio de postulaciones
  on 2026-02-10, cierre de postulaciones on 2026-02-20, deadline on 2026-03-01.
\<close>

theorem pickNextDeadline_labeled_close_witness:
  "pickNextDeadline go_ascii labeled_close_scenario (Date 2026 2 1 0 0 0 0 0)
     = Some (Date 2026 2 20 23 59 59 0 0)"
proof -
  have h: "\<forall>ev \<in> set (DeadlineEvidence labeled_close_scenario).
             \<not> Contains (label_text go_ascii ev) fecha_maxima"
    by code_simp
  have v: "next_deadline_rule go_ascii (close_not_start go_ascii) labeled_close_scenario
             (Date 2026 2 1 0 0 0 0 0) = Some (Date 2026 2 20 23 59 59 0 0)"
    by code_simp
  from pickNextDeadline_labeled_close[OF h, of "Date 2026 2 1 0 0 0 0 0"] v
  show ?thesis by simp
qed

text \<open>
  C3 as the claim states it fails: it makes every entry with a close hint a labeled
  close.  The entry dated 2026-03-01 has label deadline and a snippet that mentions the
  start of the call; the code takes it for start-like and leaves it out of the labeled
  closes, so the earliest future candidate, 2026-02-10, is returned, where the rule of
  the claim gives 2026-03-01.
\<close>

theorem pickNextDeadline_start_like_excluded:
  "pickNextDeadline go_ascii start_and_deadline_scenario (Date 2026 2 1 0 0 0 0 0)
     = Some (Date 2026 2 10 23 59 59 0 0)
   \<and> next_deadline_rule go_ascii (claimed_close_like go_ascii) start_and_deadline_scenario
         (Date 2026 2 1 0 0 0 0 0) = Some (Date 2026 3 1 23 59 59 0 0)"
  by code_simp

section \<open>The status decision\<close>

lemma detectResultsPage_rule: "detectResultsPage L opp = claimed_results_rule L opp"
proof -
  have sub: "Contains t ''resultados finales'' \<or> Contains t ''ganadores'' \<Longrightarrow> ContainsAny t resultsKeywords" for t
    by (auto simp: ContainsAny_def resultsKeywords_def)
  show ?thesis
    unfolding detectResultsPage_def claimed_results_rule_def whitelisted_active_def
      results_text_def Let_def
    using sub by auto
qed

lemma decision_sel:
  "NormalizedStatus' (decision a b c d e) = a"
  "StatusReason' (decision a b c d e) = b"
  "StatusConfidence' (decision a b c d e) = c"
  "NextDeadlineAt' (decision a b c d e) = d"
  "IsResultsPage' (decision a b c d e) = e"
  by (simp_all add: decision_def)

lemma results_branch:
  "detectResultsPage L opp \<or> IsResultsPage opp \<Longrightarrow>
   ComputeStatusDecision L opp now =
     decision ''closed'' ''results_page'' (99/100) (pickNextDeadline L opp now) True"
  by (simp add: ComputeStatusDecision_def Let_def)

lemma other_branches:
  "\<not> (detectResultsPage L opp \<or> IsResultsPage opp) \<Longrightarrow>
   \<not> IsResultsPage' (ComputeStatusDecision L opp now)"
  by (simp add: ComputeStatusDecision_def Let_def decision_sel)







text \<open>
  C2, amended.  The engine classifies an opportunity as a results page (closed,
  results_page, 0.99, \<open>is_results_page = true\<close>) if and only if the \<open>IsResultsPage\<close> flag
  of the record is already set, or the text of title, summary, description and
  source_status_raw contains a results keyword and \<open>opp_status\<close> is not one of posted,
  active, open, forecasted.  The decision does not depend on \<open>ExternalURL\<close>.
\<close>

theorem results_page_rule:
  "(is_results_decision (ComputeStatusDecision L opp now)
      \<longleftrightarrow> IsResultsPage opp \<or> claimed_results_rule L opp)
   \<and> ComputeStatusDecision L (opp\<lparr> ExternalURL := u \<rparr>) now = ComputeStatusDecision L opp now"
proof (intro conjI)
  show "is_results_decision (ComputeStatusDecision L opp now)
          \<longleftrightarrow> IsResultsPage opp \<or> claimed_results_rule L opp"
  proof (cases "detectResultsPage L opp \<or> IsResultsPage opp")
    case True
    from results_branch[OF this, of now] True show ?thesis
      by (auto simp: is_results_decision_def decision_sel detectResultsPage_rule)
  next
    case False
    from other_branches[OF this, of now] False show ?thesis
      by (auto simp: is_results_decision_def detectResultsPage_rule)
  qed
next
  have pick: "pickNextDeadline L (opp\<lparr> ExternalURL := u \<rparr>) now = pickNextDeadline L opp now"
    by (simp add: pickNextDeadline_def split: prod.splits option.splits)
  have "detectResultsPage L (opp\<lparr> ExternalURL := u \<rparr>) = detectResultsPage L opp"
    by (simp add: detectResultsPage_def)
  moreover have "detectRollingEvidence L (opp\<lparr> ExternalURL := u \<rparr>) = detectRollingEvidence L opp"
    by (simp add: detectRollingEvidence_def)
  moreover have "hasAnyDeadlineEvidence (opp\<lparr> ExternalURL := u \<rparr>) = hasAnyDeadlineEvidence opp"
    by (simp add: hasAnyDeadlineEvidence_def)
  moreover have "hasFutureDeadlineEvidence L (opp\<lparr> ExternalURL := u \<rparr>) now
                   = hasFutureDeadlineEvidence L opp now"
    by (simp add: hasFutureDeadlineEvidence_def pick)
  ultimately show "ComputeStatusDecision L (opp\<lparr> ExternalURL := u \<rparr>) now
                     = ComputeStatusDecision L opp now"
    by (simp add: ComputeStatusDecision_def Let_def pick)
qed

text \<open>
  The theorem at scenario 6 on 2026-02-12 12:00 UTC: a grants.gov detail URL with the
  word results in it, \<open>opp_status = posted\<close>, a deadline thirty days ahead.  It is not a
  results page, and it classifies as open.
\<close>

theorem results_page_rule_witness:
  "\<not> is_results_decision (ComputeStatusDecision go_ascii grants_gov_scenario
                            (Date 2026 2 12 12 0 0 0 0))
   \<and> ComputeStatusDecision go_ascii grants_gov_scenario (Date 2026 2 12 12 0 0 0 0)
       = decision ''open'' ''future_deadline'' (93/100) (Some (Date 2026 3 14 12 0 0 0 0)) False"
proof -
  have h: "\<not> (IsResultsPage grants_gov_scenario \<or> claimed_results_rule go_ascii grants_gov_scenario)"
    by code_simp
  have v: "ComputeStatusDecision go_ascii grants_gov_scenario (Date 2026 2 12 12 0 0 0 0)
       = decision ''open'' ''future_deadline'' (93/100) (Some (Date 2026 3 14 12 0 0 0 0)) False"
    by code_simp
  from results_page_rule[of go_ascii grants_gov_scenario "Date 2026 2 12 12 0 0 0 0" "[]"] h v
  show ?thesis by blast
qed

text \<open>
  C2 as the claim states it fails in the only-if direction.  The record is posted and
  no field holds a results keyword, so the rule of the claim does not apply; its
  \<open>IsResultsPage\<close> flag is set, and the engine classifies it as a results page.
\<close>

theorem results_page_by_flag:
  "is_results_decision (ComputeStatusDecision go_ascii flagged_posted_scenario
                          (Date 2026 2 12 12 0 0 0 0))
   \<and> \<not> claimed_results_rule go_ascii flagged_posted_scenario"
  by code_simp

section \<open>The status pass of FromRaw\<close>

text \<open>
  C10.  \<open>UpdateStatus\<close> overwrites \<open>OppStatus\<close> with the decision when the decision is
  closed or archived, and otherwise replaces an empty or unknown \<open>OppStatus\<close> by posted;
  it stamps the five fields of the decision; putting the six fields back gives the
  record it started from, so no other field changes.
\<close>

theorem UpdateStatus_frame:
  "OppStatus (UpdateStatus L now opp) =
     (if NormalizedStatus' (ComputeStatusDecision L opp now) = ''closed''
         \<or> NormalizedStatus' (ComputeStatusDecision L opp now) = ''archived''
      then NormalizedStatus' (ComputeStatusDecision L opp now)
      else if OppStatus opp = [] \<or> OppStatus opp = ''unknown'' then ''posted''
      else OppStatus opp)
   \<and> NormalizedStatus (UpdateStatus L now opp) = NormalizedStatus' (ComputeStatusDecision L opp now)
   \<and> StatusReason (UpdateStatus L now opp) = StatusReason' (ComputeStatusDecision L opp now)
   \<and> StatusConfidence (UpdateStatus L now opp) = StatusConfidence' (ComputeStatusDecision L opp now)
   \<and> NextDeadlineAt (UpdateStatus L now opp) = NextDeadlineAt' (ComputeStatusDecision L opp now)
   \<and> IsResultsPage (UpdateStatus L now opp) = IsResultsPage' (ComputeStatusDecision L opp now)
   \<and> (UpdateStatus L now opp)\<lparr> NormalizedStatus := NormalizedStatus opp,
                                 StatusReason := StatusReason opp,
                                 StatusConfidence := StatusConfidence opp,
                                 NextDeadlineAt := NextDeadlineAt opp,
                                 IsResultsPage := IsResultsPage opp,
                                 OppStatus := OppStatus opp \<rparr> = opp"
  by (simp add: UpdateStatus_def Let_def)

theorem UpdateStatus_frame_witness:
  "OppStatus (UpdateStatus go_ascii (Date 2026 2 12 12 0 0 0 0) unknown_status_scenario)
     = ''posted''
   \<and> NormalizedStatus (UpdateStatus go_ascii (Date 2026 2 12 12 0 0 0 0) unknown_status_scenario)
     = ''open''"
proof -
  have v: "ComputeStatusDecision go_ascii unknown_status_scenario (Date 2026 2 12 12 0 0 0 0)
       = decision ''open'' ''future_deadline'' (93/100) (Some (Date 2026 3 14 12 0 0 0 0)) False"
    by code_simp
  have o: "OppStatus unknown_status_scenario = ''unknown''"
    by (simp add: unknown_status_scenario_def)
  from UpdateStatus_frame[of go_ascii "Date 2026 2 12 12 0 0 0 0" unknown_status_scenario]
  show ?thesis
    unfolding v o by (simp add: decision_sel)
qed

section \<open>The open tab of the listing\<close>

lemma sql_or_True: "sql_or a b = Some True \<longleftrightarrow> a = Some True \<or> b = Some True"
  by (auto simp: sql_or_def)

lemma sql_ge_True: "sql_ge col v = Some True \<longleftrightarrow> (\<exists>t. col = Some t \<and> v \<le> t)"
  by (auto simp: sql_ge_def split: option.splits)

lemma open_tab_sound:
  assumes "list_all (\<lambda>c. c r = Some True) (buildOpenTabConstraint now)"
  shows "normalized_status r = ''open'' \<and> \<not> is_results_page r
         \<and> (rolling_evidence r \<or> (\<exists>t. next_deadline_at r = Some t \<and> now \<le> t)
              \<or> (\<exists>t. close_at r = Some t \<and> now \<le> t))"
  using assms by (simp add: buildOpenTabConstraint_def sql_or_True sql_ge_True)

lemma status_open_tab:
  assumes "status = [] \<or> status = ''open'' \<or> status = ''active''"
  shows "status_conditions now status = buildOpenTabConstraint now"
  using assms by (auto simp: status_conditions_def Let_def)

lemma selected_status:
  assumes "selected L tm now params r"
  shows "list_all (\<lambda>c. c r = Some True) (status_conditions now (Status params))"
  using assms by (simp add: selected_def where_conditions_def)

text \<open>
  C8.  With status tab open (the default, an empty \<open>Status\<close>, and its alias active), a
  row that satisfies the WHERE clause has \<open>normalized_status = 'open'\<close>,
  \<open>is_results_page = false\<close>, and rolling evidence or a \<open>next_deadline_at\<close> or
  \<open>close_at\<close> that is not before \<open>NOW()\<close>, whatever the other filters are.  So a row with
  \<open>is_results_page = true\<close> is not listed, also when its status is open.
\<close>

theorem open_tab_listing:
  assumes "Status params = [] \<or> Status params = ''open'' \<or> Status params = ''active''"
    and "selected L text_match now params r"
  shows "normalized_status r = ''open'' \<and> is_results_page r = False
         \<and> (rolling_evidence r = True \<or> (\<exists>t. next_deadline_at r = Some t \<and> now \<le> t)
              \<or> (\<exists>t. close_at r = Some t \<and> now \<le> t))"
  using open_tab_sound[of r now] selected_status[OF assms(2)] status_open_tab[OF assms(1), of now]
  by simp

text \<open>
  The theorem at the default parameters and an open row with a deadline ahead, on
  2026-02-12; the same row marked as a results page is not selected.
\<close>

theorem open_tab_listing_witness:
  "normalized_status open_row = ''open'' \<and> is_results_page open_row = False
   \<and> (rolling_evidence open_row = True
        \<or> (\<exists>t. next_deadline_at open_row = Some t \<and> Date 2026 2 12 12 0 0 0 0 \<le> t)
        \<or> (\<exists>t. close_at open_row = Some t \<and> Date 2026 2 12 12 0 0 0 0 \<le> t))
   \<and> selected go_ascii no_text_match (Date 2026 2 12 12 0 0 0 0) zero_ListParams
         (open_row\<lparr> is_results_page := True \<rparr>) = False"
proof -
  have h1: "Status zero_ListParams = [] \<or> Status zero_ListParams = ''open''
            \<or> Status zero_ListParams = ''active''"
    by (simp add: zero_ListParams_def)
  have h2: "selected go_ascii no_text_match (Date 2026 2 12 12 0 0 0 0) zero_ListParams open_row"
    by code_simp
  have h3: "selected go_ascii no_text_match (Date 2026 2 12 12 0 0 0 0) zero_ListParams
              (open_row\<lparr> is_results_page := True \<rparr>) = False"
    by code_simp
  from open_tab_listing[OF h1 h2] h3 show ?thesis by blast
qed

section \<open>Date-only evidence\<close>
















section \<open>The address check\<close>

lemma To4_four: "To4 [a, b, c, d] = Some [a, b, c, d]"
  by (simp add: To4_def)

text \<open>The IPv4 ranges that \<open>isPrivateIP\<close> rejects, for a 4-byte address.\<close>

lemma isPrivateIP_v4_blocked:
  assumes "a = 127 \<or> a = 10 \<or> (a = 172 \<and> 16 \<le> b \<and> b \<le> 31) \<or> (a = 192 \<and> b = 168)
           \<or> (a = 169 \<and> b = 254) \<or> a AND 0xf0 = 0xe0"
  shows "isPrivateIP (Some [a, b, c, d])"
  using assms
  by (auto simp: isPrivateIP_def IsLoopback_def IsLinkLocalUnicast_def IsMulticast_def
        IsPrivate_def To4_four)

text \<open>
  C6 at an address of 100.64.0.0/10.  \<open>isPrivateIP\<close> does not reject it, in either
  form, so \<open>safeDialContext\<close> goes on to dial and \<open>safeCheckRedirect\<close> lets a redirect
  to it pass; \<open>isPrivateOrSpecialIP\<close> of the API server rejects the same address.
\<close>

theorem isPrivateIP_misses_cgnat:
  "isPrivateIP (Some cgnat4) = False \<and> isPrivateIP (Some cgnat16) = False
   \<and> safeDialContext cgnat_resolver ''100.64.0.1'' = Dial
   \<and> safeCheckRedirect go_ascii cgnat_resolver 0 ''http'' ''100.64.0.1'' = None
   \<and> isPrivateOrSpecialIP (Some cgnat4) = True"
proof -
  note ip_defs = isPrivateIP_def IsLoopback_def IsLinkLocalUnicast_def
    IsLinkLocalMulticast_def IsMulticast_def IsPrivate_def IsUnspecified_def To4_def
    IP_Equal_def IPv4zero_def IPv6unspecified_def IPv6loopback_def v4InV6Prefix_def
    AddrFromSlice_def Unmap_def Prefix_Contains_def blockedPrefixes_def bytes_value_def
  have t1: "isPrivateIP (Some cgnat4) = False"
    by (simp add: ip_defs cgnat4_def)
  have t2: "isPrivateIP (Some cgnat16) = False"
    by (simp add: ip_defs cgnat16_def)
  have t3: "isPrivateOrSpecialIP (Some cgnat4) = True"
    by (simp add: ip_defs cgnat4_def isPrivateOrSpecialIP_def)
  have t4: "safeDialContext cgnat_resolver ''100.64.0.1'' = Dial"
    by (simp add: safeDialContext_def cgnat_resolver_def t1)
  have a: "EqualFold go_ascii ''100.64.0.1'' ''localhost'' = False"
    by code_simp
  have b: "HasSuffix (ToLower go_ascii ''100.64.0.1'') ''.local'' = False"
    by code_simp
  have t5: "safeCheckRedirect go_ascii cgnat_resolver 0 ''http'' ''100.64.0.1'' = None"
    by (simp add: safeCheckRedirect_def cgnat_resolver_def t1 a b)
  from t1 t2 t3 t4 t5 show ?thesis by simp
qed

theorem isPrivateIP_misses_cgnat_witness:
  "safeDialContext cgnat_resolver ''100.64.0.1'' = Dial"
  using isPrivateIP_misses_cgnat by blast

section \<open>The canonical URL\<close>










end
